theory Spec2Isabelle
  imports Complex_Main "HOL-Library.AList" "HOL-Library.Multiset"
begin

section \<open>Errors\<close>

text \<open>
  The exceptions the modelled functions can raise. \<open>ValueError\<close> carries the message
  of the \<^verbatim>\<open>raise\<close>, \<open>NameError\<close> the unbound name that was looked up,
  \<open>KeyError\<close> the key that a dictionary lacks.
\<close>

datatype error = ValueError string | NameError string | KeyError string | ZeroDivisionError

section \<open>core/utils.py\<close>

text \<open>
  Angles are Python floats. Where the result of a function does not depend on rounding
  (the cusp a list holds at an index, the keys of a dictionary, the order of a sort) an
  angle is an exact real, and the two \<^verbatim>\<open>while\<close> loops of \<^verbatim>\<open>normalize_angle\<close> are
  the two recursive functions \<open>norm_up\<close> and \<open>norm_down\<close>. The section on Python
  floats below has the same loops, and the Julian day functions, on IEEE doubles.
\<close>

function norm_up :: "real \<Rightarrow> real" where
  "norm_up angle = (if angle < 0 then norm_up (angle + 360) else angle)"
  by pat_completeness auto
termination
proof (relation "measure (\<lambda>a. nat \<lceil>- a / 360\<rceil>)")
  show "wf (measure (\<lambda>a::real. nat \<lceil>- a / 360\<rceil>))" by simp
next
  fix angle :: real
  assume neg: "angle < 0"
  have shift: "- (angle + 360) / 360 = - angle / 360 - 1" by (simp add: field_simps)
  have pos: "0 < - angle / 360" using neg by simp
  then have "0 < \<lceil>- angle / 360\<rceil>" by (simp add: less_ceiling_iff)
  then have "nat (\<lceil>- angle / 360\<rceil> - 1) < nat \<lceil>- angle / 360\<rceil>" by simp
  then have "nat \<lceil>- (angle + 360) / 360\<rceil> < nat \<lceil>- angle / 360\<rceil>"
    by (simp only: shift ceiling_diff_one)
  then show "(angle + 360, angle) \<in> measure (\<lambda>a. nat \<lceil>- a / 360\<rceil>)"
    by (simp only: in_measure)
qed

function norm_down :: "real \<Rightarrow> real" where
  "norm_down angle = (if angle \<ge> 360 then norm_down (angle - 360) else angle)"
  by pat_completeness auto
termination
proof (relation "measure (\<lambda>a. nat \<lfloor>a / 360\<rfloor>)")
  show "wf (measure (\<lambda>a::real. nat \<lfloor>a / 360\<rfloor>))" by simp
next
  fix angle :: real
  assume big: "360 \<le> angle"
  have shift: "(angle - 360) / 360 = angle / 360 - 1" by (simp add: field_simps)
  have "1 \<le> angle / 360" using big by simp
  then have "1 \<le> \<lfloor>angle / 360\<rfloor>" by (simp add: le_floor_iff)
  then have "nat (\<lfloor>angle / 360\<rfloor> - 1) < nat \<lfloor>angle / 360\<rfloor>" by simp
  then have "nat \<lfloor>(angle - 360) / 360\<rfloor> < nat \<lfloor>angle / 360\<rfloor>"
    by (simp only: shift floor_diff_one)
  then show "(angle - 360, angle) \<in> measure (\<lambda>a. nat \<lfloor>a / 360\<rfloor>)"
    by (simp only: in_measure)
qed

declare norm_up.simps [simp del]
declare norm_down.simps [simp del]

definition normalize_angle :: "real \<Rightarrow> real" where
  "normalize_angle angle = norm_down (norm_up angle)"

definition calculate_distance :: "real \<Rightarrow> real \<Rightarrow> real" where
  "calculate_distance angle1 angle2 =
     (let diff = \<bar>angle1 - angle2\<bar> in min diff (360 - diff))"

section \<open>Python floats\<close>

text \<open>
  A Python float is an IEEE 754 binary64 number: zero, or a real of magnitude at least
  \<open>2 ^ - 1074\<close> with at most 53 significant bits. Each arithmetic operation returns the
  exact result rounded to the nearest such number, a tie going to the even significand.
  \<open>double_exponent x\<close> is the binary exponent of \<open>x\<close> (not below that of the
  subnormal numbers), \<open>double_ulp x\<close> the spacing of the doubles around \<open>x\<close>, and
  \<open>round_double x\<close> the double nearest to \<open>x\<close>. Overflow to infinity is not
  modelled: the functions below apply \<open>round_double\<close> to values far below \<open>2 ^ 1024\<close>.
\<close>

definition double_exponent :: "real \<Rightarrow> int" where
  "double_exponent x = max \<lfloor>log 2 \<bar>x\<bar>\<rfloor> (- 1022)"

definition double_ulp :: "real \<Rightarrow> real" where
  "double_ulp x = 2 powr (real_of_int (double_exponent x) - 52)"

definition round_half_even :: "real \<Rightarrow> int" where
  "round_half_even y =
     (let f = \<lfloor>y\<rfloor>; r = y - real_of_int f
      in if r < 1 / 2 then f else if r > 1 / 2 then f + 1 else if even f then f else f + 1)"

definition round_double :: "real \<Rightarrow> real" where
  "round_double x =
     (if x = 0 then 0 else double_ulp x * real_of_int (round_half_even (x / double_ulp x)))"

text \<open>
  \<^verbatim>\<open>normalize_angle\<close> on doubles: \<^verbatim>\<open>angle += 360\<close> and \<^verbatim>\<open>angle -= 360\<close> round
  their result. A \<^verbatim>\<open>while\<close> loop that may run forever is a partial function, and
  \<open>None\<close> is the loop that never ends.
\<close>

partial_function (option) norm_up_double :: "real \<Rightarrow> real option" where
  "norm_up_double angle =
     (if angle < 0 then norm_up_double (round_double (angle + 360)) else Some angle)"

partial_function (option) norm_down_double :: "real \<Rightarrow> real option" where
  "norm_down_double angle =
     (if angle \<ge> 360 then norm_down_double (round_double (angle - 360)) else Some angle)"

definition normalize_angle_double :: "real \<Rightarrow> real option" where
  "normalize_angle_double angle =
     (case norm_up_double angle of None \<Rightarrow> None | Some angle \<Rightarrow> norm_down_double angle)"

section \<open>core/constants.py\<close>

definition DEGTORAD :: real where
  "DEGTORAD = pi / 180"

definition RADTODEG :: real where
  "RADTODEG = 180 / pi"

text \<open>
  The dictionaries with a fixed set of string keys are records; each field carries a
  prefix naming its record, since the keys of the source (\<^verbatim>\<open>angle\<close>, \<^verbatim>\<open>orb\<close>,
  \<^verbatim>\<open>longitude\<close>, ...) are also names of its local variables. A letter of the source
  outside ASCII is written by its code point: \<open>CHR 0xE9\<close> is e with acute accent,
  \<open>CHR 0xE8\<close> is e with grave accent.
\<close>

record aspect_def =
  def_name :: string
  def_angle :: int
  def_orb :: int
  def_type :: string
  def_score :: int

definition ASPECTS :: "aspect_def list" where
  "ASPECTS =
    [\<lparr>def_name = ''Conjonction'', def_angle = 0, def_orb = 8, def_type = ''majeur'', def_score = 10\<rparr>,
     \<lparr>def_name = ''Opposition'', def_angle = 180, def_orb = 8, def_type = ''majeur'', def_score = -5\<rparr>,
     \<lparr>def_name = ''Trigone'', def_angle = 120, def_orb = 8, def_type = ''majeur'', def_score = 8\<rparr>,
     \<lparr>def_name = ''Carr'' @ [CHR 0xE9], def_angle = 90, def_orb = 8, def_type = ''majeur'', def_score = -6\<rparr>,
     \<lparr>def_name = ''Sextile'', def_angle = 60, def_orb = 6, def_type = ''majeur'', def_score = 6\<rparr>,
     \<lparr>def_name = ''Quintile'', def_angle = 72, def_orb = 2, def_type = ''mineur'', def_score = 3\<rparr>,
     \<lparr>def_name = ''Biquintile'', def_angle = 144, def_orb = 2, def_type = ''mineur'', def_score = 3\<rparr>,
     \<lparr>def_name = ''Quincunce'', def_angle = 150, def_orb = 3, def_type = ''mineur'', def_score = -2\<rparr>]"

section \<open>data/ephemeris.py\<close>

record elements =
  el_a :: real
  el_e :: real
  el_i :: real
  el_L :: real
  el_w :: real
  el_Node :: real
  el_period :: real

record position =
  pos_longitude :: real
  pos_latitude :: real
  pos_distance :: real
  pos_speed :: real
  pos_retrograde :: bool

text \<open>
  \<^verbatim>\<open>_load_planet_elements\<close>: the dictionary of orbital elements, as an association
  list in the order of the source; \<open>planet_elements\<close> is the attribute that
  \<^verbatim>\<open>__init__\<close> sets from it, read as a map.
\<close>

definition load_planet_elements :: "(string \<times> elements) list" where
  "load_planet_elements =
    [(''Sun'', \<lparr>el_a = 1.00000011, el_e = 0.01671022, el_i = 0.00005, el_L = 0.0,
        el_w = 282.9404, el_Node = 0.0, el_period = 365.25\<rparr>),
     (''Moon'', \<lparr>el_a = 0.002569555, el_e = 0.0549, el_i = 5.145, el_L = 0.0,
        el_w = 0.0, el_Node = 0.0, el_period = 27.32166\<rparr>),
     (''Mercury'', \<lparr>el_a = 0.38709893, el_e = 0.20563069, el_i = 7.00487, el_L = 252.25084,
        el_w = 77.45645, el_Node = 48.33167, el_period = 87.969\<rparr>),
     (''Venus'', \<lparr>el_a = 0.72333199, el_e = 0.00677323, el_i = 3.39471, el_L = 181.97973,
        el_w = 131.53298, el_Node = 76.68069, el_period = 224.701\<rparr>),
     (''Mars'', \<lparr>el_a = 1.52366231, el_e = 0.09341233, el_i = 1.85061, el_L = 355.45332,
        el_w = 336.04084, el_Node = 49.57854, el_period = 686.98\<rparr>),
     (''Jupiter'', \<lparr>el_a = 5.20336301, el_e = 0.04839266, el_i = 1.30530, el_L = 34.40438,
        el_w = 14.75385, el_Node = 100.55615, el_period = 4332.59\<rparr>),
     (''Saturn'', \<lparr>el_a = 9.53707032, el_e = 0.05415060, el_i = 2.48446, el_L = 49.94432,
        el_w = 92.43194, el_Node = 113.71504, el_period = 10759.22\<rparr>),
     (''Uranus'', \<lparr>el_a = 19.19126393, el_e = 0.04716771, el_i = 0.76986, el_L = 313.23218,
        el_w = 170.96424, el_Node = 74.22988, el_period = 30685.4\<rparr>),
     (''Neptune'', \<lparr>el_a = 30.06896348, el_e = 0.00858587, el_i = 1.76917, el_L = 304.88003,
        el_w = 44.97135, el_Node = 131.72169, el_period = 60189.0\<rparr>),
     (''Pluto'', \<lparr>el_a = 39.48168677, el_e = 0.24880766, el_i = 17.14175, el_L = 238.92881,
        el_w = 224.06676, el_Node = 110.30347, el_period = 90737.0\<rparr>)]"

definition planet_elements :: "string \<rightharpoonup> elements" where
  "planet_elements = map_of load_planet_elements"

definition calculate_sun_position :: "real \<Rightarrow> position" where
  "calculate_sun_position jd =
     (let t = (jd - 2451545.0) / 36525.0;
          L = 280.46646 + 36000.76983 * t + 0.0003032 * t ^ 2;
          M = 357.52911 + 35999.05029 * t - 0.0001537 * t ^ 2;
          e = 0.016708634 - 0.000042037 * t - 0.0000001267 * t ^ 2;
          L = normalize_angle L;
          M = normalize_angle M;
          C = (1.914602 - 0.004817 * t - 0.000014 * t ^ 2) * sin (M * DEGTORAD);
          C = C + (0.019993 - 0.000101 * t) * sin (2 * M * DEGTORAD);
          C = C + 0.000289 * sin (3 * M * DEGTORAD);
          longitude = L + C;
          latitude = 0.0;
          distance = 1.000001018 * (1 - e ^ 2) / (1 + e * cos ((M + C) * DEGTORAD));
          speed = 0.9856474
      in \<lparr>pos_longitude = normalize_angle longitude, pos_latitude = latitude,
          pos_distance = distance, pos_speed = speed, pos_retrograde = False\<rparr>)"

definition calculate_moon_position :: "real \<Rightarrow> position" where
  "calculate_moon_position jd =
     (let t = (jd - 2451545.0) / 36525.0;
          L = 218.3164477 + 481267.88123421 * t - 0.0015786 * t ^ 2 + t ^ 3 / 538841.0;
          L = normalize_angle L;
          P = 83.3532465 + 4069.0137287 * t - 0.0103200 * t ^ 2 - t ^ 3 / 80053.0;
          P = normalize_angle P;
          M = L - P;
          M = normalize_angle M;
          D = 297.8501921 + 445267.1114034 * t - 0.0018819 * t ^ 2 + t ^ 3 / 545868.0;
          D = normalize_angle D;
          F = 93.2720950 + 483202.0175233 * t - 0.0036539 * t ^ 2 - t ^ 3 / 3526000.0;
          F = normalize_angle F;
          longitude = L + 6.288750 * sin (M * DEGTORAD);
          longitude = longitude + 1.274018 * sin ((2 * D - M) * DEGTORAD);
          longitude = longitude + 0.658309 * sin (2 * D * DEGTORAD);
          longitude = longitude + 0.213616 * sin (2 * M * DEGTORAD);
          longitude = longitude + - 0.185596 * sin (P * DEGTORAD);
          longitude = longitude + - 0.114336 * sin (2 * F * DEGTORAD);
          latitude = 5.128189 * sin (F * DEGTORAD);
          latitude = latitude + 0.280606 * sin ((M + F) * DEGTORAD);
          latitude = latitude + 0.277693 * sin ((M - F) * DEGTORAD);
          distance = 385000.56;
          speed = 13.176358
      in \<lparr>pos_longitude = normalize_angle longitude, pos_latitude = latitude,
          pos_distance = distance, pos_speed = speed, pos_retrograde = False\<rparr>)"

text \<open>
  \<^verbatim>\<open>_calculate_planet_position\<close>, the private method behind the public
  \<^verbatim>\<open>calculate_planet_position\<close>; an Isabelle name cannot start with an underscore,
  so the private one is \<open>calculate_planet_position_private\<close>. It computes \<open>t\<close> from
  \<open>jd\<close> as the source does, and like the source never uses it.
\<close>

definition calculate_planet_position_private :: "string \<Rightarrow> real \<Rightarrow> elements \<Rightarrow> position" where
  "calculate_planet_position_private planet_name jd els =
     (let t = (jd - 2451545.0) / 36525.0;
          M = el_L els - el_w els;
          M = normalize_angle M;
          M_rad = M * DEGTORAD;
          e = el_e els;
          C = (2 * e - e ^ 3 / 4) * sin M_rad;
          C = C + (5 * e ^ 2 / 4) * sin (2 * M_rad);
          C = C + (13 * e ^ 3 / 12) * sin (3 * M_rad);
          longitude = el_w els + M + C;
          longitude = normalize_angle longitude;
          latitude = el_i els * sin ((longitude - el_Node els) * DEGTORAD);
          a = el_a els;
          distance = a * (1 - e ^ 2) / (1 + e * cos ((M + C) * DEGTORAD));
          speed = 360.0 / el_period els
      in \<lparr>pos_longitude = longitude, pos_latitude = latitude,
          pos_distance = distance, pos_speed = speed, pos_retrograde = False\<rparr>)"

definition calculate_planet_position :: "string \<Rightarrow> real \<Rightarrow> error + position" where
  "calculate_planet_position planet_name jd =
     (case planet_elements planet_name of
        None \<Rightarrow> Inl (ValueError (''Plan'' @ [CHR 0xE8] @ ''te inconnue: '' @ planet_name))
      | Some els \<Rightarrow>
          if planet_name = ''Sun'' then Inr (calculate_sun_position jd)
          else if planet_name = ''Moon'' then Inr (calculate_moon_position jd)
          else Inr (calculate_planet_position_private planet_name jd els))"

definition calculate_lunar_node :: "real \<Rightarrow> position" where
  "calculate_lunar_node jd =
     (let t = (jd - 2451545.0) / 36525.0;
          longitude = 125.04452 - 1934.136261 * t + 0.0020708 * t ^ 2 + t ^ 3 / 450000.0;
          longitude = normalize_angle longitude
      in \<lparr>pos_longitude = longitude, pos_latitude = 0.0, pos_distance = 0.0,
          pos_speed = - 19.3408, pos_retrograde = True\<rparr>)"

definition calculate_south_node :: "position \<Rightarrow> position" where
  "calculate_south_node north_node =
     (let south_longitude = normalize_angle (pos_longitude north_node + 180)
      in \<lparr>pos_longitude = south_longitude, pos_latitude = 0.0, pos_distance = 0.0,
          pos_speed = 19.3408, pos_retrograde = False\<rparr>)"

definition calculate_chiron :: "real \<Rightarrow> position" where
  "calculate_chiron jd =
     (let t = (jd - 2451545.0) / 36525.0;
          longitude = 209.8856 + 0.0003 * t
      in \<lparr>pos_longitude = normalize_angle longitude, pos_latitude = 0.0, pos_distance = 13.7,
          pos_speed = 0.0003, pos_retrograde = False\<rparr>)"

text \<open>
  A dictionary that is iterated is an association list in insertion order with distinct
  keys; \<open>AList.update\<close> is the assignment \<^verbatim>\<open>positions[k] = v\<close>: it replaces the
  value of a present key in place and appends an absent one. The \<^verbatim>\<open>for\<close> loop of
  \<^verbatim>\<open>calculate_all_planets\<close> is \<open>all_planets_loop\<close>; it stops at the first call that
  raises.
\<close>

definition planet_names :: "string list" where
  "planet_names = [''Sun'', ''Moon'', ''Mercury'', ''Venus'', ''Mars'',
                   ''Jupiter'', ''Saturn'', ''Uranus'', ''Neptune'', ''Pluto'']"

fun all_planets_loop ::
  "string list \<Rightarrow> real \<Rightarrow> (string \<times> position) list \<Rightarrow> error + (string \<times> position) list" where
  "all_planets_loop [] jd positions = Inr positions"
| "all_planets_loop (planet_name # rest) jd positions =
     (case calculate_planet_position planet_name jd of
        Inl err \<Rightarrow> Inl err
      | Inr p \<Rightarrow> all_planets_loop rest jd (AList.update planet_name p positions))"

definition calculate_all_planets :: "real \<Rightarrow> error + (string \<times> position) list" where
  "calculate_all_planets jd =
     (case all_planets_loop planet_names jd [] of
        Inl err \<Rightarrow> Inl err
      | Inr positions \<Rightarrow>
          let node = calculate_lunar_node jd;
              positions = AList.update ''Node'' node positions;
              positions = AList.update ''South_Node'' (calculate_south_node node) positions;
              positions = AList.update ''Chiron'' (calculate_chiron jd) positions
          in Inr positions)"

section \<open>core/houses.py\<close>

text \<open>
  \<^verbatim>\<open>math.atan2\<close> on reals: the angle of the point \<open>(x, y)\<close> in \<open>(-pi, pi]\<close>, and 0
  at the origin.
\<close>

definition atan2 :: "real \<Rightarrow> real \<Rightarrow> real" where
  "atan2 y x =
     (if x > 0 then arctan (y / x)
      else if x < 0 then (if y \<ge> 0 then arctan (y / x) + pi else arctan (y / x) - pi)
      else if y > 0 then pi / 2
      else if y < 0 then - pi / 2
      else 0)"

record house_layout =
  hl_houses :: "real list"
  hl_ascendant :: real
  hl_descendant :: real
  hl_mc :: real
  hl_ic :: real
  hl_system :: string
  hl_lst :: real

definition calculate_local_sidereal_time :: "real \<Rightarrow> real \<Rightarrow> real" where
  "calculate_local_sidereal_time jd longitude =
     (let t = (jd - 2451545.0) / 36525.0;
          gst = 280.46061837 + 360.98564736629 * (jd - 2451545.0) + 0.000387933 * t ^ 2
                  - t ^ 3 / 38710000.0;
          gst = normalize_angle gst;
          gst_hours = gst / 15.0;
          longitude_hours = longitude / 15.0;
          lst_hours = gst_hours + longitude_hours;
          lst = lst_hours * 15.0;
          lst = normalize_angle lst
      in lst)"

definition calculate_ascendant :: "real \<Rightarrow> real \<Rightarrow> real" where
  "calculate_ascendant lst latitude =
     (let epsilon = 23.439281;
          lst_rad = lst * DEGTORAD;
          lat_rad = latitude * DEGTORAD;
          eps_rad = epsilon * DEGTORAD;
          tan_eps = tan eps_rad;
          sin_lat = sin lat_rad;
          cos_lat = cos lat_rad;
          y = sin lst_rad * cos_lat;
          x = cos lst_rad * cos_lat;
          ra_asc = atan2 y x;
          dec_asc = arcsin (sin_lat * sin eps_rad);
          y = sin ra_asc * cos eps_rad + tan dec_asc * sin eps_rad;
          x = cos ra_asc;
          ascendant = atan2 y x * RADTODEG;
          ascendant = normalize_angle ascendant
      in ascendant)"

definition calculate_mc :: "real \<Rightarrow> real \<Rightarrow> real" where
  "calculate_mc lst latitude =
     (let mc = lst;
          latitude_corr = latitude * 0.0001;
          mc = normalize_angle (mc + latitude_corr)
      in mc)"

definition calculate_placidus_cusp :: "real \<Rightarrow> real \<Rightarrow> real \<Rightarrow> real \<Rightarrow> real" where
  "calculate_placidus_cusp ascendant diurnal_arc latitude lst =
     (let lat_rad = latitude * DEGTORAD;
          lat_factor = tan lat_rad;
          cusp_correction = diurnal_arc * lat_factor * 0.01;
          cusp = ascendant + diurnal_arc + cusp_correction;
          cusp = normalize_angle cusp
      in cusp)"

text \<open>
  A \<^verbatim>\<open>for\<close> loop that assigns into the list \<^verbatim>\<open>houses\<close> is a \<open>fold\<close> of its body
  over the list of indices, with the list of cusps as the state. The second loop of
  \<^verbatim>\<open>_placidus_houses\<close> reads \<^verbatim>\<open>houses[i-1]\<close> after the previous round has
  updated it.
\<close>

definition placidus_houses :: "real \<Rightarrow> real \<Rightarrow> real \<Rightarrow> real \<Rightarrow> real list" where
  "placidus_houses ascendant mc latitude lst =
     (let houses = replicate 12 0.0;
          houses = houses[0 := ascendant];
          houses = houses[9 := mc];
          houses = fold (\<lambda>i houses.
                      if i = 9 then houses
                      else let diurnal_arc = (if i \<ge> 7 then 180 + (int i - 6) * 30
                                              else (int i - 6) * 30);
                               house_cusp = calculate_placidus_cusp ascendant
                                              (real_of_int diurnal_arc) latitude lst
                           in houses[i := house_cusp])
                    [11, 10, 9, 8, 7, 6, 5, 4, 3, 2, 1] houses;
          houses = fold (\<lambda>i houses.
                      if i > 0 \<and> houses ! i < houses ! (i - 1)
                      then houses[i := houses ! i + 360] else houses)
                    [0..<12] houses
      in houses)"

definition calculate_oblique_ascension :: "real \<Rightarrow> real \<Rightarrow> real" where
  "calculate_oblique_ascension angle lat_rad =
     (let tan_lat = tan lat_rad;
          oblique_asc = angle - arctan (tan_lat * sin (angle * DEGTORAD)) * RADTODEG
      in normalize_angle oblique_asc)"

definition ascension_to_longitude :: "real \<Rightarrow> real \<Rightarrow> real" where
  "ascension_to_longitude ascension lat_rad =
     (let longitude = ascension + arctan (tan lat_rad * sin (ascension * DEGTORAD)) * RADTODEG
      in normalize_angle longitude)"

definition koch_houses :: "real \<Rightarrow> real \<Rightarrow> real \<Rightarrow> real \<Rightarrow> real list" where
  "koch_houses ascendant mc latitude lst =
     (let houses = replicate 12 0.0;
          houses = houses[0 := ascendant];
          houses = houses[9 := mc];
          lat_rad = latitude * DEGTORAD;
          houses = fold (\<lambda>i houses.
                      if i = 9 then houses
                      else let house_angle = real (i * 30);
                               ascension = calculate_oblique_ascension house_angle lat_rad;
                               house_cusp = ascension_to_longitude ascension lat_rad
                           in houses[i := house_cusp])
                    [1..<12] houses
      in houses)"

definition vertical_to_longitude :: "real \<Rightarrow> real \<Rightarrow> real \<Rightarrow> real" where
  "vertical_to_longitude vertical_angle lat_rad ascendant =
     (let tan_factor = tan lat_rad;
          longitude = ascendant + vertical_angle
                        + (tan_factor * sin (vertical_angle * DEGTORAD) * 5)
      in normalize_angle longitude)"

definition campanus_houses :: "real \<Rightarrow> real \<Rightarrow> real \<Rightarrow> real list" where
  "campanus_houses ascendant mc latitude =
     (let houses = replicate 12 0.0;
          houses = houses[0 := ascendant];
          lat_rad = latitude * DEGTORAD;
          houses = fold (\<lambda>i houses.
                      let vertical_angle = real (i * 30);
                          house_cusp = vertical_to_longitude vertical_angle lat_rad ascendant
                      in houses[i := house_cusp])
                    [0..<12] houses
      in houses)"

definition equatorial_to_longitude :: "real \<Rightarrow> real \<Rightarrow> real" where
  "equatorial_to_longitude equatorial_angle latitude =
     (let lat_factor = tan (latitude * DEGTORAD) * 0.1;
          longitude = equatorial_angle + (equatorial_angle * lat_factor)
      in normalize_angle longitude)"

definition regiomontanus_houses :: "real \<Rightarrow> real \<Rightarrow> real \<Rightarrow> real list" where
  "regiomontanus_houses ascendant mc latitude =
     (let houses = replicate 12 0.0;
          houses = houses[0 := ascendant];
          houses = houses[9 := mc];
          houses = fold (\<lambda>i houses.
                      if i = 0 \<or> i = 9 then houses
                      else let equatorial_angle = real (i * 30);
                               house_cusp = equatorial_to_longitude equatorial_angle latitude
                           in houses[i := house_cusp])
                    [0..<12] houses
      in houses)"

definition equal_houses :: "real \<Rightarrow> real list" where
  "equal_houses ascendant =
     (let houses = replicate 12 0.0;
          houses = fold (\<lambda>i houses. houses[i := normalize_angle (ascendant + real (i * 30))])
                    [0..<12] houses
      in houses)"

text \<open>
  \<^verbatim>\<open>_porphyry_houses\<close> calls \<^verbatim>\<open>normalize_shape\<close>, a name that no module of the
  repository defines or imports: evaluating that call raises \<^verbatim>\<open>NameError\<close>, whatever
  the argument. The statements before the call run, and the statements after it are
  the rest of the function as written.
\<close>

definition normalize_shape :: "real \<Rightarrow> error + real" where
  "normalize_shape angle = Inl (NameError ''normalize_shape'')"

definition porphyry_houses :: "real \<Rightarrow> real \<Rightarrow> error + real list" where
  "porphyry_houses ascendant mc =
     (let houses = replicate 12 0.0;
          houses = houses[0 := ascendant];
          houses = houses[9 := mc];
          quadrant1_size = normalize_angle (mc - ascendant);
          quadrant2_size = normalize_angle (ascendant + 180 - mc);
          quadrant3_size = quadrant1_size;
          quadrant4_size = quadrant2_size;
          houses = houses[10 := normalize_angle (mc + quadrant1_size / 3)]
      in case normalize_shape (mc + 2 * quadrant1_size / 3) of
           Inl err \<Rightarrow> Inl err
         | Inr cusp12 \<Rightarrow>
             let houses = houses[11 := cusp12];
                 houses = houses[1 := normalize_angle (ascendant + quadrant2_size / 3)];
                 houses = houses[2 := normalize_angle (ascendant + 2 * quadrant2_size / 3)];
                 houses = houses[3 := normalize_angle (ascendant + 180 + quadrant3_size / 3)];
                 houses = houses[4 := normalize_angle (ascendant + 180 + 2 * quadrant3_size / 3)];
                 houses = houses[6 := normalize_angle (mc + 180 + quadrant4_size / 3)];
                 houses = houses[7 := normalize_angle (mc + 180 + 2 * quadrant4_size / 3)]
             in Inr houses)"

text \<open>
  \<^verbatim>\<open>calculate_houses\<close>. The assignment to \<^verbatim>\<open>self.current_system\<close> is not
  modelled: nothing reads that attribute.
\<close>

definition calculate_houses :: "real \<Rightarrow> real \<Rightarrow> real \<Rightarrow> string \<Rightarrow> error + house_layout" where
  "calculate_houses jd latitude longitude system =
     (let lst = calculate_local_sidereal_time jd longitude;
          ascendant = calculate_ascendant lst latitude;
          mc = calculate_mc lst latitude;
          result =
            (if system = ''P'' then Inr (placidus_houses ascendant mc latitude lst)
             else if system = ''K'' then Inr (koch_houses ascendant mc latitude lst)
             else if system = ''C'' then Inr (campanus_houses ascendant mc latitude)
             else if system = ''R'' then Inr (regiomontanus_houses ascendant mc latitude)
             else if system = ''E'' then Inr (equal_houses ascendant)
             else if system = ''O'' then porphyry_houses ascendant mc
             else Inr (placidus_houses ascendant mc latitude lst))
      in case result of
           Inl err \<Rightarrow> Inl err
         | Inr houses \<Rightarrow>
             let descendant = normalize_angle (ascendant + 180);
                 ic = normalize_angle (mc + 180)
             in Inr \<lparr>hl_houses = houses, hl_ascendant = ascendant, hl_descendant = descendant,
                     hl_mc = mc, hl_ic = ic, hl_system = system, hl_lst = lst\<rparr>)"

section \<open>core/aspects.py\<close>

record aspect =
  asp_planet1 :: string
  asp_planet2 :: string
  asp_aspect :: string
  asp_angle :: int
  asp_actual_angle :: real
  asp_orb :: real
  asp_type :: string
  asp_score :: int
  asp_applying :: bool
  asp_separating :: bool

definition is_applying :: "position \<Rightarrow> position \<Rightarrow> bool" where
  "is_applying planet1_data planet2_data =
     (let speed1 = pos_speed planet1_data;
          speed2 = pos_speed planet2_data
      in \<bar>speed1\<bar> > \<bar>speed2\<bar>)"

definition is_separating :: "position \<Rightarrow> position \<Rightarrow> bool" where
  "is_separating planet1_data planet2_data = (\<not> is_applying planet1_data planet2_data)"

text \<open>
  \<^verbatim>\<open>calculate_aspects\<close>. The attribute \<^verbatim>\<open>orb_factor\<close> of the calculator is the
  first argument (\<^verbatim>\<open>__init__\<close> sets it to 1.0); \<^verbatim>\<open>self.aspects\<close> is \<open>ASPECTS\<close>.
  The two loops run over the keys of \<^verbatim>\<open>positions\<close> and read
  \<^verbatim>\<open>positions[planet]\<close>, the value stored with that key, so they are loops over
  the items. \<open>aspects_found\<close> is the list before the final sort, in discovery order.
  \<^verbatim>\<open>list.sort\<close> is stable, as \<open>sort_key\<close> is.
\<close>

definition aspects_found :: "real \<Rightarrow> (string \<times> position) list \<Rightarrow> real \<Rightarrow> aspect list" where
  "aspects_found orb_factor positions max_orb =
     concat (map (\<lambda>(i, planet1, data1).
       concat (map (\<lambda>(j, planet2, data2).
         if i \<ge> j then []
         else
           let pos1 = pos_longitude data1;
               pos2 = pos_longitude data2;
               distance = calculate_distance pos1 pos2
           in concat (map (\<lambda>aspect_def.
                let aspect_angle = def_angle aspect_def;
                    aspect_orb = real_of_int (def_orb aspect_def) * orb_factor;
                    orb = \<bar>distance - real_of_int aspect_angle\<bar>
                in if orb \<le> min aspect_orb max_orb
                   then [\<lparr>asp_planet1 = planet1, asp_planet2 = planet2,
                           asp_aspect = def_name aspect_def, asp_angle = aspect_angle,
                           asp_actual_angle = distance, asp_orb = orb,
                           asp_type = def_type aspect_def, asp_score = def_score aspect_def,
                           asp_applying = is_applying data1 data2,
                           asp_separating = is_separating data1 data2\<rparr>]
                   else []) ASPECTS))
         (enumerate 0 positions)))
       (enumerate 0 positions))"

definition calculate_aspects :: "real \<Rightarrow> (string \<times> position) list \<Rightarrow> real \<Rightarrow> aspect list" where
  "calculate_aspects orb_factor positions max_orb =
     sort_key asp_orb (aspects_found orb_factor positions max_orb)"

section \<open>core/calculator.py\<close>

text \<open>
  \<^verbatim>\<open>calculate_compatibility\<close> reads two keys of a chart, \<^verbatim>\<open>planet_positions\<close>
  and \<^verbatim>\<open>element_counts\<close>; the record \<open>chart\<close> has these two fields.
\<close>

record chart =
  ch_planet_positions :: "(string \<times> position) list"
  ch_element_counts :: "(string \<times> int) list"

record synastry_aspect =
  syn_planet1 :: string
  syn_planet2 :: string
  syn_aspect :: string
  syn_orb :: real
  syn_score :: int

record element_compatibility =
  ec_total_score :: int
  ec_element_analysis :: "(string \<times> int) list"
  ec_dominant_elements :: "string list"

record compatibility =
  cmp_synastry_aspects :: "synastry_aspect list"
  cmp_compatibility_score :: int
  cmp_compatibility_percentage :: real
  cmp_element_compatibility :: element_compatibility
  cmp_interpretation :: string

definition dict_get :: "(string \<times> 'v) list \<Rightarrow> string \<Rightarrow> error + 'v" where
  "dict_get d k = (case map_of d k of None \<Rightarrow> Inl (KeyError k) | Some v \<Rightarrow> Inr v)"

definition compatibility_scores :: "(string \<times> (string \<times> int) list) list" where
  "compatibility_scores =
    [(''Feu'', [(''Feu'', 8), (''Terre'', 6), (''Air'', 9), (''Eau'', 4)]),
     (''Terre'', [(''Feu'', 6), (''Terre'', 8), (''Air'', 5), (''Eau'', 9)]),
     (''Air'', [(''Feu'', 9), (''Terre'', 5), (''Air'', 7), (''Eau'', 6)]),
     (''Eau'', [(''Feu'', 4), (''Terre'', 9), (''Air'', 6), (''Eau'', 8)])]"

fun get_dominant_elements ::
  "(string \<times> int) list \<Rightarrow> (string \<times> int) list \<Rightarrow> string list \<Rightarrow> error + string list" where
  "get_dominant_elements [] elements2 dominant = Inr dominant"
| "get_dominant_elements ((element, count1) # rest) elements2 dominant =
     (if count1 > 2 then get_dominant_elements rest elements2 (dominant @ [element])
      else case dict_get elements2 element of
             Inl err \<Rightarrow> Inl err
           | Inr count2 \<Rightarrow>
               if count2 > 2 then get_dominant_elements rest elements2 (dominant @ [element])
               else get_dominant_elements rest elements2 dominant)"

fun element_pairs_loop ::
  "(string \<times> string) list \<Rightarrow> int \<Rightarrow> (string \<times> int) list \<Rightarrow> error + int \<times> (string \<times> int) list" where
  "element_pairs_loop [] total_score element_analysis = Inr (total_score, element_analysis)"
| "element_pairs_loop ((elem1, elem2) # rest) total_score element_analysis =
     (case dict_get compatibility_scores elem1 of
        Inl err \<Rightarrow> Inl err
      | Inr row \<Rightarrow>
          (case dict_get row elem2 of
             Inl err \<Rightarrow> Inl err
           | Inr score \<Rightarrow>
               element_pairs_loop rest (total_score + score)
                 (AList.update (elem1 @ ''-'' @ elem2) score element_analysis)))"

definition analyze_element_compatibility ::
  "(string \<times> int) list \<Rightarrow> (string \<times> int) list \<Rightarrow> error + element_compatibility" where
  "analyze_element_compatibility elements1 elements2 =
     (case element_pairs_loop (List.product (map fst elements1) (map fst elements2)) 0 [] of
        Inl err \<Rightarrow> Inl err
      | Inr (total_score, element_analysis) \<Rightarrow>
          (case get_dominant_elements elements1 elements2 [] of
             Inl err \<Rightarrow> Inl err
           | Inr dominant \<Rightarrow>
               Inr \<lparr>ec_total_score = total_score, ec_element_analysis = element_analysis,
                    ec_dominant_elements = dominant\<rparr>))"

definition interpret_compatibility :: "real \<Rightarrow> synastry_aspect list \<Rightarrow> string" where
  "interpret_compatibility percentage aspects =
     (if percentage \<ge> 80
      then ''Compatibilit'' @ [CHR 0xE9] @ '' exceptionnelle - Union harmonieuse et compl''
             @ [CHR 0xE8] @ ''te''
      else if percentage \<ge> 60
      then ''Tr'' @ [CHR 0xE8] @ ''s bonne compatibilit'' @ [CHR 0xE9] @ '' - Relation ''
             @ [CHR 0xE9] @ ''quilibr'' @ [CHR 0xE9] @ ''e avec potentiel de croissance''
      else if percentage \<ge> 40
      then ''Compatibilit'' @ [CHR 0xE9] @ '' moyenne - Travail et communication n''
             @ [CHR 0xE9] @ ''cessaires''
      else if percentage \<ge> 20
      then ''Difficult'' @ [CHR 0xE9] @ ''s importantes - Efforts cons'' @ [CHR 0xE9]
             @ ''quents requis pour la relation''
      else ''Compatibilit'' @ [CHR 0xE9] @ '' tr'' @ [CHR 0xE8] @ ''s faible - D''
             @ [CHR 0xE9] @ ''fis majeurs '' @ [CHR 0xE0] @ '' surmonter'')"

text \<open>
  The nested loops of \<^verbatim>\<open>calculate_compatibility\<close> are \<open>synastry_aspects\<close>. Python's
  \<^verbatim>\<open>/\<close> raises \<^verbatim>\<open>ZeroDivisionError\<close> on a zero divisor; \<open>compatibility_percentage\<close>
  is the assignment that divides.
\<close>

definition synastry_aspects :: "chart \<Rightarrow> chart \<Rightarrow> synastry_aspect list" where
  "synastry_aspects chart1 chart2 =
     concat (map (\<lambda>(planet1, data1).
       concat (map (\<lambda>(planet2, data2).
         let distance = calculate_distance (pos_longitude data1) (pos_longitude data2)
         in concat (map (\<lambda>aspect_def.
              let orb = \<bar>distance - real_of_int (def_angle aspect_def)\<bar>
              in if orb \<le> real_of_int (def_orb aspect_def)
                 then [\<lparr>syn_planet1 = planet1, syn_planet2 = planet2,
                         syn_aspect = def_name aspect_def, syn_orb = orb,
                         syn_score = def_score aspect_def\<rparr>]
                 else []) ASPECTS))
         (ch_planet_positions chart2)))
       (ch_planet_positions chart1))"

definition compatibility_percentage :: "int \<Rightarrow> int \<Rightarrow> error + real" where
  "compatibility_percentage total_score max_possible_score =
     (if 2 * max_possible_score = 0 then Inl ZeroDivisionError
      else Inr (max 0 (min 100 (real_of_int (total_score + max_possible_score)
                                  / real_of_int (2 * max_possible_score) * 100))))"

definition calculate_compatibility :: "chart \<Rightarrow> chart \<Rightarrow> error + compatibility" where
  "calculate_compatibility chart1 chart2 =
     (let aspects = synastry_aspects chart1 chart2;
          total_score = sum_list (map syn_score aspects);
          max_possible_score = int (length aspects) * 10
      in case compatibility_percentage total_score max_possible_score of
           Inl err \<Rightarrow> Inl err
         | Inr percentage \<Rightarrow>
             (case analyze_element_compatibility (ch_element_counts chart1)
                     (ch_element_counts chart2) of
                Inl err \<Rightarrow> Inl err
              | Inr element_compat \<Rightarrow>
                  Inr \<lparr>cmp_synastry_aspects = aspects,
                       cmp_compatibility_score = total_score,
                       cmp_compatibility_percentage = percentage,
                       cmp_element_compatibility = element_compat,
                       cmp_interpretation = interpret_compatibility percentage aspects\<rparr>))"

section \<open>Angle normalisation\<close>

lemma norm_up_nonneg: "0 \<le> norm_up a"
  by (induction a rule: norm_up.induct) (simp add: norm_up.simps)

lemma norm_up_below: "a < 360 \<Longrightarrow> norm_up a < 360"
proof (induction a rule: norm_up.induct)
  case (1 angle)
  show ?case
  proof (cases "angle < 0")
    case True
    then have "angle + 360 < 360" by simp
    with 1 True show ?thesis by (simp add: norm_up.simps)
  next
    case False
    with 1 show ?thesis by (simp add: norm_up.simps)
  qed
qed

lemma norm_up_above: "360 \<le> a \<Longrightarrow> norm_up a = a"
  by (simp add: norm_up.simps)

lemma norm_up_id: "0 \<le> a \<Longrightarrow> norm_up a = a"
  by (simp add: norm_up.simps)

lemma norm_down_below: "norm_down a < 360"
  by (induction a rule: norm_down.induct) (simp add: norm_down.simps)

lemma norm_down_nonneg: "0 \<le> a \<Longrightarrow> 0 \<le> norm_down a"
proof (induction a rule: norm_down.induct)
  case (1 angle)
  show ?case
  proof (cases "360 \<le> angle")
    case True
    then have "0 \<le> angle - 360" by simp
    with 1 True show ?thesis by (simp add: norm_down.simps)
  next
    case False
    with 1 show ?thesis by (simp add: norm_down.simps)
  qed
qed

lemma norm_down_id: "a < 360 \<Longrightarrow> norm_down a = a"
  by (simp add: norm_down.simps)

lemma normalize_angle_range: "0 \<le> normalize_angle a \<and> normalize_angle a < 360"
  by (simp add: normalize_angle_def norm_down_below norm_down_nonneg norm_up_nonneg)

lemma normalize_angle_id: "0 \<le> a \<Longrightarrow> a < 360 \<Longrightarrow> normalize_angle a = a"
  by (simp add: normalize_angle_def norm_up_id norm_down_id)

section \<open>Angle normalisation on doubles\<close>

lemma double_exponent_binade:
  assumes "2 ^ n \<le> \<bar>x\<bar>" "\<bar>x\<bar> < 2 ^ Suc n"
  shows "double_exponent x = int n"
proof -
  have pos: "0 < \<bar>x\<bar>" using assms(1) by (smt (verit) zero_less_power)
  have "(2::real) powr real_of_int (int n) \<le> \<bar>x\<bar>"
    using assms(1) by (simp add: powr_realpow)
  moreover have "(2::real) powr real_of_int (int n + 1) = 2 ^ Suc n"
    by (simp add: powr_add powr_realpow)
  then have "\<bar>x\<bar> < (2::real) powr real_of_int (int n + 1)"
    using assms(2) by simp
  ultimately have "\<lfloor>log 2 \<bar>x\<bar>\<rfloor> = int n"
    using floor_log_eq_powr_iff [of "\<bar>x\<bar>" 2 "int n"] pos by simp
  then show ?thesis by (simp add: double_exponent_def)
qed

lemma round_double_large:
  assumes "2 ^ (52 + k) \<le> \<bar>x\<bar>" "\<bar>x\<bar> < 2 ^ Suc (52 + k)"
  shows "round_double x = 2 ^ k * real_of_int (round_half_even (x / 2 ^ k))"
proof -
  have "double_exponent x = int (52 + k)" using assms by (rule double_exponent_binade)
  then have "double_ulp x = 2 ^ k"
    by (simp add: double_ulp_def powr_realpow)
  moreover have "x \<noteq> 0" using assms(1) by (smt (verit) zero_less_power)
  ultimately show ?thesis by (simp add: round_double_def)
qed

lemma round_double_small:
  assumes "2 ^ n \<le> \<bar>x\<bar>" "\<bar>x\<bar> < 2 ^ Suc n" "n \<le> 52"
  shows "round_double x = real_of_int (round_half_even (x * 2 ^ (52 - n))) / 2 ^ (52 - n)"
proof -
  have "double_exponent x = int n" using assms(1,2) by (rule double_exponent_binade)
  then have "double_ulp x = 2 powr (- real (52 - n))"
    using assms(3) by (simp add: double_ulp_def of_nat_diff)
  then have "double_ulp x = 1 / 2 ^ (52 - n)"
    by (simp add: powr_minus powr_realpow divide_inverse)
  moreover have "x \<noteq> 0" using assms(1) by (smt (verit) zero_less_power)
  ultimately show ?thesis by (simp add: round_double_def)
qed

lemma stuck_above: "round_double 9999999999999999640 = 10000000000000000000"
  by (subst round_double_large [where k = 11]) (simp_all add: round_half_even_def Let_def)

lemma stuck_below: "round_double (- 9999999999999999640) = - 10000000000000000000"
  by (subst round_double_large [where k = 11]) (simp_all add: round_half_even_def Let_def)

lemma norm_down_double_stuck:
  assumes "360 \<le> x" "round_double (x - 360) = x"
  shows "norm_down_double x = None"
proof -
  have "a \<noteq> x" if "norm_down_double a = Some y" for a y
  proof (rule norm_down_double.raw_induct [where P = "\<lambda>a y. a \<noteq> x", OF _ that])
    fix f a y
    assume IH: "\<And>a y. f a = Some y \<Longrightarrow> a \<noteq> x"
      and run: "(if 360 \<le> a then f (round_double (a - 360)) else Some a) = Some y"
    show "a \<noteq> x"
    proof
      assume "a = x"
      with run assms have "f x = Some y" by simp
      with IH show False by blast
    qed
  qed
  then show ?thesis by (cases "norm_down_double x") auto
qed

lemma norm_up_double_stuck:
  assumes "x < 0" "round_double (x + 360) = x"
  shows "norm_up_double x = None"
proof -
  have "a \<noteq> x" if "norm_up_double a = Some y" for a y
  proof (rule norm_up_double.raw_induct [where P = "\<lambda>a y. a \<noteq> x", OF _ that])
    fix f a y
    assume IH: "\<And>a y. f a = Some y \<Longrightarrow> a \<noteq> x"
      and run: "(if a < 0 then f (round_double (a + 360)) else Some a) = Some y"
    show "a \<noteq> x"
    proof
      assume "a = x"
      with run assms have "f x = Some y" by simp
      with IH show False by blast
    qed
  qed
  then show ?thesis by (cases "norm_up_double x") auto
qed

text \<open>
  C8 (the code fails here). At \<open>1e19\<close> the doubles are 2048 apart, so
  \<^verbatim>\<open>angle -= 360\<close> rounds back to \<open>1e19\<close> and the second loop of
  \<^verbatim>\<open>normalize_angle\<close> never ends; at \<open>-1e19\<close> the first loop never ends. No value
  in \<open>[0, 360)\<close> is returned.
\<close>

theorem normalize_angle_never_returns:
  "normalize_angle_double 10000000000000000000 = None
   \<and> normalize_angle_double (- 10000000000000000000) = None"
proof -
  have up: "norm_up_double 10000000000000000000 = Some 10000000000000000000"
    by (subst norm_up_double.simps) simp
  have "norm_down_double 10000000000000000000 = None"
    by (rule norm_down_double_stuck) (simp_all add: stuck_above)
  moreover have "norm_up_double (- 10000000000000000000) = None"
    by (rule norm_up_double_stuck) (simp_all add: stuck_below)
  ultimately show ?thesis by (simp add: normalize_angle_double_def up)
qed

section \<open>Angular distance\<close>

text \<open>
  C9 (as the code has it). For all reals \<open>a\<close> and \<open>b\<close>, \<open>calculate_distance a b\<close>
  equals \<open>calculate_distance b a\<close> and is at most 180; it is at least 0 whenever
  \<open>a\<close> and \<open>b\<close> differ by at most 360, as two normalised angles do.
\<close>

theorem calculate_distance_symmetric_bounded:
  "calculate_distance a b = calculate_distance b a
   \<and> calculate_distance a b \<le> 180
   \<and> (\<bar>a - b\<bar> \<le> 360 \<longrightarrow> 0 \<le> calculate_distance a b)"
  by (auto simp: calculate_distance_def Let_def min_def abs_if)

theorem calculate_distance_symmetric_bounded_witness:
  "\<bar>(10::real) - 350\<bar> \<le> 360 \<and> 0 \<le> calculate_distance 10 350
   \<and> calculate_distance 10 350 = calculate_distance 350 10
   \<and> calculate_distance 10 350 \<le> 180"
  using calculate_distance_symmetric_bounded [of 10 350]
  by simp

text \<open>
  Two angles more than 360 apart have a negative distance: for 0 and 400 the result is
  -40, outside \<open>[0, 180]\<close>.
\<close>

theorem calculate_distance_range_counterexample:
  "calculate_distance 0 400 = - 40
   \<and> \<not> (0 \<le> calculate_distance 0 400 \<and> calculate_distance 0 400 \<le> 180)"
  by (simp add: calculate_distance_def Let_def)

section \<open>Bodies of the ephemeris\<close>

lemma planet_elements_dom: "dom planet_elements = set planet_names"
  by (simp add: planet_elements_def load_planet_elements_def planet_names_def dom_map_of_conv_image_fst)

lemma planet_elements_unknown: "planet_name \<notin> set planet_names \<Longrightarrow> planet_elements planet_name = None"
  using planet_elements_dom by blast

lemma calculate_planet_position_unknown:
  assumes "planet_name \<notin> set planet_names"
  shows "calculate_planet_position planet_name jd =
           Inl (ValueError (''Plan'' @ [CHR 0xE8] @ ''te inconnue: '' @ planet_name))"
  using planet_elements_unknown [OF assms]
  by (simp add: calculate_planet_position_def)

lemma calculate_planet_position_known:
  assumes "planet_name \<in> set planet_names"
  shows "\<exists>p. calculate_planet_position planet_name jd = Inr p"
proof -
  from assms planet_elements_dom obtain els where "planet_elements planet_name = Some els"
    by blast
  then show ?thesis by (simp add: calculate_planet_position_def)
qed

text \<open>
  C10. For every body name outside the ten keys of the element table,
  \<open>calculate_planet_position\<close> raises the \<open>ValueError\<close> whose message ends with that
  name; it returns no position, and a loop over names that meets such a name stops with
  the same error instead of returning a set of positions.
\<close>

theorem unknown_body_raises_value_error:
  "planet_name \<notin> set planet_names \<Longrightarrow>
     calculate_planet_position planet_name jd =
       Inl (ValueError (''Plan'' @ [CHR 0xE8] @ ''te inconnue: '' @ planet_name))
     \<and> all_planets_loop (planet_name # rest) jd positions =
       Inl (ValueError (''Plan'' @ [CHR 0xE8] @ ''te inconnue: '' @ planet_name))"
  by (simp add: calculate_planet_position_unknown)

theorem unknown_body_raises_value_error_witness:
  "''Vulcan'' \<notin> set planet_names
   \<and> calculate_planet_position ''Vulcan'' 2451545 =
       Inl (ValueError (''Plan'' @ [CHR 0xE8] @ ''te inconnue: Vulcan''))
   \<and> all_planets_loop [''Vulcan'', ''Sun''] 2451545 [] =
       Inl (ValueError (''Plan'' @ [CHR 0xE8] @ ''te inconnue: Vulcan''))"
  using unknown_body_raises_value_error [of "''Vulcan''" 2451545 "[''Sun'']" "[]"]
  by (simp add: planet_names_def)

text \<open>
  C4. For each of Mercury, Venus, Mars, Jupiter, Saturn, Uranus, Neptune and Pluto and
  for any two Julian days, \<open>calculate_planet_position\<close> returns the same position
  (longitude, latitude, distance, speed and retrograde flag) at both.
\<close>

theorem kepler_position_independent_of_instant:
  "planet_name \<in> set [''Mercury'', ''Venus'', ''Mars'', ''Jupiter'', ''Saturn'',
                        ''Uranus'', ''Neptune'', ''Pluto''] \<Longrightarrow>
     \<exists>p. calculate_planet_position planet_name jd1 = Inr p
        \<and> calculate_planet_position planet_name jd2 = Inr p"
proof -
  assume mem: "planet_name \<in> set [''Mercury'', ''Venus'', ''Mars'', ''Jupiter'', ''Saturn'',
                        ''Uranus'', ''Neptune'', ''Pluto'']"
  then have known: "planet_name \<in> set planet_names" by (auto simp: planet_names_def)
  from mem have other: "planet_name \<noteq> ''Sun''" "planet_name \<noteq> ''Moon''" by auto
  from known planet_elements_dom obtain els where "planet_elements planet_name = Some els"
    by blast
  with other show ?thesis
    by (simp add: calculate_planet_position_def calculate_planet_position_private_def)
qed

theorem kepler_position_independent_of_instant_witness:
  "''Mars'' \<in> set [''Mercury'', ''Venus'', ''Mars'', ''Jupiter'', ''Saturn'',
                     ''Uranus'', ''Neptune'', ''Pluto'']
   \<and> (\<exists>p. calculate_planet_position ''Mars'' 2451545 = Inr p
          \<and> calculate_planet_position ''Mars'' 2460000 = Inr p)"
  using kepler_position_independent_of_instant [of "''Mars''" 2451545 2460000]
  by simp

lemma all_planets_loop_keys:
  "set names \<subseteq> set planet_names \<Longrightarrow>
     \<exists>ps. all_planets_loop names jd positions = Inr ps
        \<and> map fst ps = fold (\<lambda>k ks. if k \<in> set ks then ks else ks @ [k]) names (map fst positions)"
proof (induction names arbitrary: positions)
  case Nil
  then show ?case by simp
next
  case (Cons n names)
  from Cons.prems have "n \<in> set planet_names" by simp
  then obtain p where p: "calculate_planet_position n jd = Inr p"
    using calculate_planet_position_known by blast
  from Cons.prems have "set names \<subseteq> set planet_names" by simp
  from Cons.IH [OF this, of "AList.update n p positions"] p
  show ?case by (simp add: update_keys)
qed

lemma calculate_all_planets_keys:
  "\<exists>ps. calculate_all_planets jd = Inr ps
       \<and> map fst ps = planet_names @ [''Node'', ''South_Node'', ''Chiron'']"
proof -
  obtain ps where ps: "all_planets_loop planet_names jd [] = Inr ps"
    and keys: "map fst ps = fold (\<lambda>k ks. if k \<in> set ks then ks else ks @ [k]) planet_names []"
    using all_planets_loop_keys [of planet_names jd "[]"] by auto
  from keys have "map fst ps = planet_names" by (simp add: planet_names_def)
  with ps show ?thesis
    by (simp add: calculate_all_planets_def Let_def update_keys planet_names_def)
qed

text \<open>
  C2 (as the code has it). For every Julian day, \<open>calculate_planet_position\<close> returns a
  position for each of the ten bodies Sun, Moon and Mercury to Pluto, and raises the
  unknown-body \<open>ValueError\<close> for Node, South_Node and Chiron, which have no entry in the
  element table; \<open>calculate_all_planets\<close> returns a set of positions whose keys are the
  ten bodies followed by Node, South_Node and Chiron.
\<close>

theorem positions_for_ten_bodies_all_for_thirteen:
  "(\<forall>planet_name \<in> set planet_names. \<exists>p. calculate_planet_position planet_name jd = Inr p)
   \<and> (\<forall>planet_name \<in> set [''Node'', ''South_Node'', ''Chiron''].
         calculate_planet_position planet_name jd =
           Inl (ValueError (''Plan'' @ [CHR 0xE8] @ ''te inconnue: '' @ planet_name)))
   \<and> (\<exists>ps. calculate_all_planets jd = Inr ps
          \<and> map fst ps = planet_names @ [''Node'', ''South_Node'', ''Chiron''])"
proof -
  have "\<forall>planet_name \<in> set [''Node'', ''South_Node'', ''Chiron'']. planet_name \<notin> set planet_names"
    by (simp add: planet_names_def)
  then show ?thesis
    using calculate_planet_position_known calculate_planet_position_unknown
      calculate_all_planets_keys by blast
qed

theorem positions_for_ten_bodies_all_for_thirteen_witness:
  "''Sun'' \<in> set planet_names
   \<and> (\<exists>p. calculate_planet_position ''Sun'' 2451545 = Inr p)
   \<and> ''Chiron'' \<in> set [''Node'', ''South_Node'', ''Chiron'']
   \<and> calculate_planet_position ''Chiron'' 2451545 =
       Inl (ValueError (''Plan'' @ [CHR 0xE8] @ ''te inconnue: Chiron''))
   \<and> (\<exists>ps. calculate_all_planets 2451545 = Inr ps
          \<and> map fst ps = planet_names @ [''Node'', ''South_Node'', ''Chiron''])"
proof -
  have sun: "''Sun'' \<in> set planet_names" by (simp add: planet_names_def)
  have chiron: "''Chiron'' \<in> set [''Node'', ''South_Node'', ''Chiron'']" by simp
  from positions_for_ten_bodies_all_for_thirteen [of 2451545] sun chiron
  show ?thesis by (metis append_Cons append_Nil)
qed

text \<open>
  The lunar node is one of the thirteen bodies, and \<open>calculate_planet_position\<close> raises
  the unknown-body error for it.
\<close>

theorem position_of_node_counterexample:
  "calculate_planet_position ''Node'' 2451545 =
     Inl (ValueError (''Plan'' @ [CHR 0xE8] @ ''te inconnue: Node''))"
  by (simp add: calculate_planet_position_def planet_elements_def load_planet_elements_def)

section \<open>House cusps\<close>

lemma fold_nth_untouched:
  "\<forall>j \<in> set js. \<forall>hs. f j hs ! k = hs ! k \<Longrightarrow> fold f js hs ! k = hs ! k"
  by (induction js arbitrary: hs) simp_all

lemma fold_length_preserved:
  "\<forall>j \<in> set js. \<forall>hs. length (f j hs) = length hs \<Longrightarrow> length (fold f js hs) = length hs"
  by (induction js arbitrary: hs) simp_all

lemma fold_update_nth:
  "k < n \<Longrightarrow> n \<le> length hs \<Longrightarrow> fold (\<lambda>i hs. hs[i := g i]) [0..<n] hs ! k = g k"
proof (induction n arbitrary: k)
  case 0
  then show ?case by simp
next
  case (Suc n)
  have len: "length (fold (\<lambda>i hs. hs[i := g i]) [0..<n] hs) = length hs"
    by (rule fold_length_preserved) simp
  show ?case
  proof (cases "k = n")
    case True
    with Suc.prems len show ?thesis by simp
  next
    case False
    with Suc.prems have "k < n" by simp
    with Suc.IH [of k] Suc.prems False show ?thesis by simp
  qed
qed

lemma porphyry_houses_raises: "porphyry_houses ascendant mc = Inl (NameError ''normalize_shape'')"
  by (simp add: porphyry_houses_def normalize_shape_def Let_def)

text \<open>
  C1 (the code fails here). With system code \<open>''O''\<close>, \<open>calculate_houses\<close> returns no
  cusps for any input: \<open>porphyry_houses\<close> raises \<open>NameError\<close> at the call of the
  undefined \<open>normalize_shape\<close>, after the cusp of house 11 and before every other
  intermediate cusp.
\<close>

theorem porphyry_raises_name_error:
  "calculate_houses jd latitude longitude ''O'' = Inl (NameError ''normalize_shape'')
   \<and> porphyry_houses ascendant mc = Inl (NameError ''normalize_shape'')"
  by (simp add: calculate_houses_def Let_def porphyry_houses_raises)

lemma calculate_ascendant_range:
  "0 \<le> calculate_ascendant lst latitude \<and> calculate_ascendant lst latitude < 360"
  by (simp add: calculate_ascendant_def Let_def normalize_angle_range)

lemma koch_houses_cusps:
  "koch_houses ascendant mc latitude lst ! 0 = ascendant
   \<and> koch_houses ascendant mc latitude lst ! 9 = mc"
  unfolding koch_houses_def Let_def
  by (subst fold_nth_untouched, simp, subst fold_nth_untouched, simp, simp)

lemma regiomontanus_houses_cusps:
  "regiomontanus_houses ascendant mc latitude ! 0 = ascendant
   \<and> regiomontanus_houses ascendant mc latitude ! 9 = mc"
  unfolding regiomontanus_houses_def Let_def
  by (subst fold_nth_untouched, simp, subst fold_nth_untouched, simp, simp)

lemma equal_houses_nth:
  "k < 12 \<Longrightarrow> equal_houses ascendant ! k = normalize_angle (ascendant + real (k * 30))"
  unfolding equal_houses_def Let_def
  by (rule fold_update_nth) simp_all

lemma campanus_houses_nth:
  "k < 12 \<Longrightarrow> campanus_houses ascendant mc latitude ! k =
     vertical_to_longitude (real (k * 30)) (latitude * DEGTORAD) ascendant"
  unfolding campanus_houses_def Let_def
  by (rule fold_update_nth) simp_all


lemma placidus_houses_cusps:
  "placidus_houses ascendant mc latitude lst ! 0 = ascendant
   \<and> (placidus_houses ascendant mc latitude lst ! 9 = mc
        \<or> placidus_houses ascendant mc latitude lst ! 9 = mc + 360)"
proof -
  define step1 where "step1 = (\<lambda>i houses.
                      if i = 9 then houses
                      else let diurnal_arc = (if i \<ge> 7 then 180 + (int i - 6) * 30
                                              else (int i - 6) * 30);
                               house_cusp = calculate_placidus_cusp ascendant
                                              (real_of_int diurnal_arc) latitude lst
                           in houses[i := house_cusp])"
  define step2 where "step2 = (\<lambda>i (houses :: real list).
                      if i > 0 \<and> houses ! i < houses ! (i - 1)
                      then houses[i := houses ! i + 360] else houses)"
  define h0 where "h0 = (replicate 12 (0::real))[0 := ascendant, 9 := mc]"
  define h1 where "h1 = fold step1 [11, 10, 9, 8, 7, 6, 5, 4, 3, 2, 1] h0"
  define h2 where "h2 = fold step2 [0..<9] h1"
  have res: "placidus_houses ascendant mc latitude lst = fold step2 [0..<12] h1"
    by (simp add: placidus_houses_def Let_def step1_def step2_def h0_def h1_def)
  have len1: "length h1 = 12"
    unfolding h1_def by (subst fold_length_preserved) (simp_all add: step1_def Let_def h0_def)
  have h1_0: "h1 ! 0 = ascendant"
    unfolding h1_def by (subst fold_nth_untouched) (simp_all add: step1_def Let_def h0_def)
  have h1_9: "h1 ! 9 = mc"
    unfolding h1_def by (subst fold_nth_untouched) (simp_all add: step1_def Let_def h0_def)
  have cusp0: "fold step2 [0..<12] h1 ! 0 = ascendant"
    by (subst fold_nth_untouched) (simp_all add: step2_def h1_0)
  have len2: "length h2 = 12"
    unfolding h2_def by (subst fold_length_preserved) (simp_all add: step2_def len1)
  have h2_9: "h2 ! 9 = mc"
    unfolding h2_def by (subst fold_nth_untouched) (simp_all add: step2_def h1_9)
  have split: "[0..<12] = [0..<9] @ [9] @ [10..<12]"
    by (simp add: upt_rec)
  have after: "fold step2 [0..<12] h1 ! 9 = step2 9 h2 ! 9"
    unfolding split fold_append h2_def comp_def
    by (subst fold_nth_untouched) (simp_all add: step2_def)
  have "step2 9 h2 ! 9 = mc \<or> step2 9 h2 ! 9 = mc + 360"
    using len2 h2_9 by (simp add: step2_def)
  with after cusp0 res show ?thesis by simp
qed

lemma vertical_to_longitude_zero:
  "0 \<le> ascendant \<Longrightarrow> ascendant < 360 \<Longrightarrow> vertical_to_longitude 0 lat_rad ascendant = ascendant"
  by (simp add: vertical_to_longitude_def Let_def normalize_angle_id)

text \<open>
  C7 (as the code has it). For every Julian day, latitude, longitude and every system
  code other than \<open>''O''\<close>, \<open>calculate_houses\<close> returns a layout whose first cusp is
  the ascendant. Its tenth cusp is the midheaven for the codes \<open>''K''\<close> and \<open>''R''\<close>;
  for \<open>''P''\<close> and for an unrecognised code it is the midheaven or the midheaven plus
  360, since the ordering loop of \<open>placidus_houses\<close> may add a turn.
\<close>

theorem house_cusps_by_system:
  "system \<noteq> ''O'' \<Longrightarrow>
     \<exists>h. calculate_houses jd latitude longitude system = Inr h
        \<and> hl_houses h ! 0 = hl_ascendant h
        \<and> (system = ''K'' \<or> system = ''R'' \<longrightarrow> hl_houses h ! 9 = hl_mc h)
        \<and> (system \<notin> {''K'', ''C'', ''R'', ''E''} \<longrightarrow>
             hl_houses h ! 9 = hl_mc h \<or> hl_houses h ! 9 = hl_mc h + 360)"
  using calculate_ascendant_range [of "calculate_local_sidereal_time jd longitude" latitude]
    placidus_houses_cusps koch_houses_cusps regiomontanus_houses_cusps
  by (simp add: calculate_houses_def Let_def equal_houses_nth campanus_houses_nth
        vertical_to_longitude_zero normalize_angle_id)

theorem house_cusps_by_system_witness:
  "''K'' \<noteq> ''O''
   \<and> (\<exists>h. calculate_houses 2451545 0 0 ''K'' = Inr h
          \<and> hl_houses h ! 0 = hl_ascendant h \<and> hl_houses h ! 9 = hl_mc h)
   \<and> ''P'' \<noteq> ''O'' \<and> ''P'' \<notin> {''K'', ''C'', ''R'', ''E''}
   \<and> (\<exists>h. calculate_houses 2451545 0 0 ''P'' = Inr h
          \<and> hl_houses h ! 0 = hl_ascendant h
          \<and> (hl_houses h ! 9 = hl_mc h \<or> hl_houses h ! 9 = hl_mc h + 360))"
  using house_cusps_by_system [of "''K''" 2451545 0 0]
    house_cusps_by_system [of "''P''" 2451545 0 0]
  by simp

text \<open>
  With equal houses the tenth cusp is 270 degrees after the ascendant, not the
  midheaven: at J2000.0, latitude 0 and longitude 79.53938163 the local sidereal time,
  the ascendant and the midheaven are all 0, and the tenth cusp is 270.
\<close>

lemma normalize_angle_360: "normalize_angle 360 = 0"
  by (simp add: normalize_angle_def norm_up.simps norm_down.simps)

lemma lst_example: "calculate_local_sidereal_time 2451545 (7953938163 / 100000000) = 0"
  by (simp add: calculate_local_sidereal_time_def Let_def normalize_angle_id normalize_angle_360)

lemma atan2_zero_one: "atan2 0 1 = 0"
  by (simp add: atan2_def)

lemma ascendant_example: "calculate_ascendant 0 0 = 0"
  by (simp add: calculate_ascendant_def Let_def atan2_zero_one normalize_angle_id)

lemma mc_example: "calculate_mc 0 0 = 0"
  by (simp add: calculate_mc_def Let_def normalize_angle_id)

theorem equal_houses_tenth_cusp_counterexample:
  "isl (calculate_houses 2451545 0 79.53938163 ''E'') = False
   \<and> hl_houses (projr (calculate_houses 2451545 0 79.53938163 ''E'')) ! 9 = 270
   \<and> hl_mc (projr (calculate_houses 2451545 0 79.53938163 ''E'')) = 0"
  by (simp add: calculate_houses_def Let_def lst_example ascendant_example mc_example
        equal_houses_nth normalize_angle_id)

section \<open>Aspects\<close>

text \<open>
  The two loops of \<open>aspects_found\<close> visit the pairs of items \<open>(x, y)\<close> with \<open>x\<close>
  before \<open>y\<close>, in the order of \<open>upper_pairs\<close>; \<open>pair_aspects\<close> is what the loop
  over \<open>ASPECTS\<close> appends for one pair.
\<close>

fun upper_pairs :: "'a list \<Rightarrow> ('a \<times> 'a) list" where
  "upper_pairs [] = []"
| "upper_pairs (x # xs) = map (Pair x) xs @ upper_pairs xs"

definition aspect_hit :: "real \<Rightarrow> real \<Rightarrow> real \<Rightarrow> aspect_def \<Rightarrow> bool" where
  "aspect_hit orb_factor max_orb distance aspect_def =
     (\<bar>distance - real_of_int (def_angle aspect_def)\<bar>
        \<le> min (real_of_int (def_orb aspect_def) * orb_factor) max_orb)"

definition make_aspect :: "string \<times> position \<Rightarrow> string \<times> position \<Rightarrow> aspect_def \<Rightarrow> aspect" where
  "make_aspect x y aspect_def =
     (let distance = calculate_distance (pos_longitude (snd x)) (pos_longitude (snd y)) in
      \<lparr>asp_planet1 = fst x, asp_planet2 = fst y,
       asp_aspect = def_name aspect_def, asp_angle = def_angle aspect_def,
       asp_actual_angle = distance,
       asp_orb = \<bar>distance - real_of_int (def_angle aspect_def)\<bar>,
       asp_type = def_type aspect_def, asp_score = def_score aspect_def,
       asp_applying = is_applying (snd x) (snd y),
       asp_separating = is_separating (snd x) (snd y)\<rparr>)"

definition pair_aspects ::
  "real \<Rightarrow> real \<Rightarrow> string \<times> position \<Rightarrow> string \<times> position \<Rightarrow> aspect list" where
  "pair_aspects orb_factor max_orb x y =
     map (make_aspect x y)
       (filter (aspect_hit orb_factor max_orb
                  (calculate_distance (pos_longitude (snd x)) (pos_longitude (snd y)))) ASPECTS)"

lemma concat_map_if_singleton:
  "concat (map (\<lambda>a. if P a then [h a] else []) xs) = map h (filter P xs)"
  by (induction xs) simp_all

lemma inner_loop_drop:
  "concat (map (\<lambda>p. if i \<ge> fst p then [] else g (snd p)) (enumerate n xs))
     = concat (map g (drop (Suc i - n) xs))"
proof (induction xs arbitrary: n)
  case Nil
  then show ?case by simp
next
  case (Cons x xs)
  show ?case
  proof (cases "n \<le> i")
    case True
    then have "Suc i - n = Suc (i - n)" "Suc i - Suc n = i - n" by simp_all
    with True Cons.IH [of "Suc n"] show ?thesis by simp
  next
    case False
    with Cons.IH [of "Suc n"] show ?thesis by simp
  qed
qed

lemma outer_loop_pairs:
  "concat (map (\<lambda>p. concat (map (g (snd p)) (drop (Suc (fst p)) (pre @ ys))))
             (enumerate (length pre) ys))
     = concat (map (\<lambda>(x, y). g x y) (upper_pairs ys))"
proof (induction ys arbitrary: pre)
  case Nil
  then show ?case by simp
next
  case (Cons y ys)
  have "concat (map (\<lambda>p. concat (map (g (snd p)) (drop (Suc (fst p)) ((pre @ [y]) @ ys))))
             (enumerate (length (pre @ [y])) ys))
     = concat (map (\<lambda>(x, y). g x y) (upper_pairs ys))"
    by (rule Cons.IH)
  then show ?case by (simp add: comp_def)
qed

lemma aspects_found_pairs:
  "aspects_found orb_factor positions max_orb
     = concat (map (\<lambda>(x, y). pair_aspects orb_factor max_orb x y) (upper_pairs positions))"
proof -
  have body: "\<And>x y. concat (map (\<lambda>aspect_def.
                let aspect_angle = def_angle aspect_def;
                    aspect_orb = real_of_int (def_orb aspect_def) * orb_factor;
                    orb = \<bar>calculate_distance (pos_longitude (snd x)) (pos_longitude (snd y))
                            - real_of_int aspect_angle\<bar>
                in if orb \<le> min aspect_orb max_orb
                   then [\<lparr>asp_planet1 = fst x, asp_planet2 = fst y,
                           asp_aspect = def_name aspect_def, asp_angle = aspect_angle,
                           asp_actual_angle = calculate_distance (pos_longitude (snd x)) (pos_longitude (snd y)),
                           asp_orb = orb,
                           asp_type = def_type aspect_def, asp_score = def_score aspect_def,
                           asp_applying = is_applying (snd x) (snd y),
                           asp_separating = is_separating (snd x) (snd y)\<rparr>]
                   else []) ASPECTS) = pair_aspects orb_factor max_orb x y"
    unfolding pair_aspects_def concat_map_if_singleton [symmetric]
    by (simp add: aspect_hit_def make_aspect_def Let_def cong: if_cong)
  have "aspects_found orb_factor positions max_orb
        = concat (map (\<lambda>p. concat (map (\<lambda>q. if fst p \<ge> fst q then []
                                              else pair_aspects orb_factor max_orb (snd p) (snd q))
                                  (enumerate 0 positions)))
                    (enumerate 0 positions))"
    unfolding aspects_found_def split_def Let_def body [unfolded Let_def]
    by (simp cong: if_cong)
  also have "\<dots> = concat (map (\<lambda>p. concat (map (pair_aspects orb_factor max_orb (snd p))
                                        (drop (Suc (fst p)) ([] @ positions))))
                          (enumerate (length ([] :: (string \<times> position) list)) positions))"
    by (simp add: inner_loop_drop)
  also have "\<dots> = concat (map (\<lambda>(x, y). pair_aspects orb_factor max_orb x y) (upper_pairs positions))"
    by (rule outer_loop_pairs)
  finally show ?thesis .
qed

lemma upper_pairs_members:
  "(u, v) \<in> set (upper_pairs xs) \<Longrightarrow> u \<in> set xs \<and> v \<in> set xs"
  by (induction xs) auto

lemma upper_pairs_keys_distinct:
  "distinct (map fst xs) \<Longrightarrow> distinct (map (\<lambda>(x, y). {fst x, fst y}) (upper_pairs xs))"
proof (induction xs)
  case Nil
  then show ?case by simp
next
  case (Cons x xs)
  from Cons.prems have fresh: "fst x \<notin> fst ` set xs" and dist: "distinct (map fst xs)"
    by simp_all
  have inj: "inj_on (\<lambda>b. {fst x, b}) (set (map fst xs))"
    by (auto simp: inj_on_def doubleton_eq_iff)
  have "distinct (map fst xs) \<and> inj_on (\<lambda>b. {fst x, b}) (set (map fst xs))"
    using dist inj by (rule conjI)
  then have "distinct (map (\<lambda>b. {fst x, b}) (map fst xs))"
    by (rule distinct_map [THEN iffD2])
  then have first: "distinct (map (\<lambda>y. {fst x, fst y}) xs)"
    by (simp add: comp_def)
  have apart: "{fst x, fst y} \<noteq> {fst u, fst v}"
    if "y \<in> set xs" and "(u, v) \<in> set (upper_pairs xs)" for y u v
  proof -
    from upper_pairs_members [OF that(2)] have "u \<in> set xs" "v \<in> set xs" by simp_all
    with fresh have "fst x \<noteq> fst u" "fst x \<noteq> fst v" by force+
    then show ?thesis by (auto simp: doubleton_eq_iff)
  qed
  from first Cons.IH [OF dist] apart show ?case
    by (auto simp: comp_def)
qed

lemma distinct_concat_keyed:
  assumes "distinct (map key ps)"
    and "\<forall>p \<in> set ps. distinct (f p)"
    and "\<forall>p \<in> set ps. \<forall>x \<in> set (f p). kf x = key p"
  shows "distinct (concat (map f ps))"
  using assms
proof (induction ps)
  case Nil
  then show ?case by simp
next
  case (Cons p ps)
  have "set (f p) \<inter> set (concat (map f ps)) = {}"
  proof (rule ccontr)
    assume "set (f p) \<inter> set (concat (map f ps)) \<noteq> {}"
    then obtain x q where x: "x \<in> set (f p)" and q: "q \<in> set ps" "x \<in> set (f q)"
      by auto
    from x Cons.prems(3) have "kf x = key p" by simp
    moreover from q Cons.prems(3) have "kf x = key q" by simp
    ultimately have "key p \<in> key ` set ps" using q(1) by (metis image_eqI)
    with Cons.prems(1) show False by simp
  qed
  with Cons show ?case by simp
qed

lemma ASPECTS_names_distinct: "distinct (map def_name ASPECTS)"
  by (simp add: ASPECTS_def)

lemma filter_at_most_one:
  "distinct xs \<Longrightarrow> (\<forall>x \<in> set xs. \<forall>y \<in> set xs. P x \<and> P y \<longrightarrow> x = y) \<Longrightarrow>
     length (filter P xs) \<le> 1"
proof (induction xs)
  case Nil
  then show ?case by simp
next
  case (Cons x xs)
  show ?case
  proof (cases "P x")
    case True
    have "filter P xs = []"
    proof (rule ccontr)
      assume "filter P xs \<noteq> []"
      then obtain y where "y \<in> set xs" "P y"
        by (metis filter_False)
      with True Cons.prems(2) have "x = y" by simp
      with \<open>y \<in> set xs\<close> Cons.prems(1) show False by simp
    qed
    with True show ?thesis by simp
  next
    case False
    with Cons show ?thesis by simp
  qed
qed

lemma ASPECTS_distinct: "distinct ASPECTS"
  using ASPECTS_names_distinct by (rule distinct_map [THEN iffD1, THEN conjunct1])

lemma ASPECTS_separated:
  "\<forall>d1 \<in> set ASPECTS. \<forall>d2 \<in> set ASPECTS.
     d1 \<noteq> d2 \<longrightarrow> def_orb d1 + def_orb d2 < \<bar>def_angle d1 - def_angle d2\<bar>"
  by (simp add: ASPECTS_def)

lemma windows_disjoint: "length (filter (aspect_hit 1 max_orb distance) ASPECTS) \<le> 1"
proof (rule filter_at_most_one [OF ASPECTS_distinct], intro ballI impI)
  fix d1 d2
  assume mem: "d1 \<in> set ASPECTS" "d2 \<in> set ASPECTS"
    and hits: "aspect_hit 1 max_orb distance d1 \<and> aspect_hit 1 max_orb distance d2"
  show "d1 = d2"
  proof (rule ccontr)
    assume "d1 \<noteq> d2"
    with mem ASPECTS_separated
    have "def_orb d1 + def_orb d2 < \<bar>def_angle d1 - def_angle d2\<bar>" by blast
    then have sep: "real_of_int (def_orb d1) + real_of_int (def_orb d2)
                      < \<bar>real_of_int (def_angle d1) - real_of_int (def_angle d2)\<bar>"
      by (metis of_int_abs of_int_add of_int_diff of_int_less_iff)
    from hits have "\<bar>distance - real_of_int (def_angle d1)\<bar> \<le> real_of_int (def_orb d1)"
      and "\<bar>distance - real_of_int (def_angle d2)\<bar> \<le> real_of_int (def_orb d2)"
      by (simp_all add: aspect_hit_def)
    with sep show False by linarith
  qed
qed

lemma pair_aspects_planets:
  "a \<in> set (pair_aspects orb_factor max_orb x y) \<Longrightarrow>
     asp_planet1 a = fst x \<and> asp_planet2 a = fst y"
  by (auto simp: pair_aspects_def make_aspect_def Let_def)

lemma pair_aspects_names:
  "map asp_aspect (pair_aspects orb_factor max_orb x y)
     = map def_name (filter (aspect_hit orb_factor max_orb
          (calculate_distance (pos_longitude (snd x)) (pos_longitude (snd y)))) ASPECTS)"
  by (simp add: pair_aspects_def make_aspect_def Let_def comp_def)

lemma pair_aspects_kinds_distinct:
  "distinct (map (\<lambda>a. ({asp_planet1 a, asp_planet2 a}, asp_aspect a))
               (pair_aspects orb_factor max_orb x y))"
proof -
  have same: "map (\<lambda>a. ({asp_planet1 a, asp_planet2 a}, asp_aspect a))
                (pair_aspects orb_factor max_orb x y)
              = map (Pair {fst x, fst y}) (map asp_aspect (pair_aspects orb_factor max_orb x y))"
    using pair_aspects_planets [of _ orb_factor max_orb x y] by (simp add: comp_def)
  have "distinct (map asp_aspect (pair_aspects orb_factor max_orb x y))"
    unfolding pair_aspects_names using ASPECTS_names_distinct by (rule distinct_map_filter)
  then show ?thesis
    unfolding same by (simp add: distinct_map inj_on_def)
qed

lemma pair_aspects_at_most_one:
  "length (pair_aspects 1 max_orb x y) \<le> 1"
  using windows_disjoint by (simp add: pair_aspects_def)

lemma distinct_short: "length xs \<le> 1 \<Longrightarrow> distinct xs"
  by (cases xs) auto

lemma aspects_found_kinds_distinct:
  assumes "distinct (map fst positions)"
  shows "distinct (map (\<lambda>a. ({asp_planet1 a, asp_planet2 a}, asp_aspect a))
                    (aspects_found orb_factor positions max_orb))"
proof -
  let ?K = "\<lambda>a. ({asp_planet1 a, asp_planet2 a}, asp_aspect a)"
  let ?f = "\<lambda>p. map ?K (pair_aspects orb_factor max_orb (fst p) (snd p))"
  have "distinct (concat (map ?f (upper_pairs positions)))"
  proof (rule distinct_concat_keyed [where key = "\<lambda>(x, y). {fst x, fst y}" and kf = fst])
    show "distinct (map (\<lambda>(x, y). {fst x, fst y}) (upper_pairs positions))"
      using assms by (rule upper_pairs_keys_distinct)
    show "\<forall>p \<in> set (upper_pairs positions). distinct (?f p)"
      using pair_aspects_kinds_distinct by blast
    show "\<forall>p \<in> set (upper_pairs positions). \<forall>k \<in> set (?f p). fst k = (case p of (x, y) \<Rightarrow> {fst x, fst y})"
      using pair_aspects_planets by (fastforce simp: split_def)
  qed
  then show ?thesis
    by (simp add: aspects_found_pairs map_concat comp_def split_def)
qed

lemma aspects_found_pairs_distinct:
  assumes "distinct (map fst positions)"
  shows "distinct (map (\<lambda>a. {asp_planet1 a, asp_planet2 a}) (aspects_found 1 positions max_orb))"
proof -
  let ?K = "\<lambda>a. {asp_planet1 a, asp_planet2 a}"
  let ?f = "\<lambda>p. map ?K (pair_aspects 1 max_orb (fst p) (snd p))"
  have "distinct (concat (map ?f (upper_pairs positions)))"
  proof (rule distinct_concat_keyed [where key = "\<lambda>(x, y). {fst x, fst y}" and kf = "\<lambda>k. k"])
    show "distinct (map (\<lambda>(x, y). {fst x, fst y}) (upper_pairs positions))"
      using assms by (rule upper_pairs_keys_distinct)
    show "\<forall>p \<in> set (upper_pairs positions). distinct (?f p)"
      using pair_aspects_at_most_one by (simp add: distinct_short)
    show "\<forall>p \<in> set (upper_pairs positions). \<forall>k \<in> set (?f p). k = (case p of (x, y) \<Rightarrow> {fst x, fst y})"
      using pair_aspects_planets by (fastforce simp: split_def)
  qed
  then show ?thesis
    by (simp add: aspects_found_pairs map_concat comp_def split_def)
qed

lemma distinct_map_sort_key:
  "distinct (map g (sort_key f xs)) = distinct (map g xs)"
  by (rule mset_eq_imp_distinct_iff) simp

text \<open>
  C6. For every set of positions with distinct keys, every orb factor and every maximal
  orb, the list returned by \<open>calculate_aspects\<close> has at most one entry for each
  unordered pair of bodies and aspect name; with orb factor 1 it has at most one entry
  for each unordered pair of bodies; its orbs are in non-decreasing order; and the
  entries of equal orb come in the order in which the loops found them.
\<close>

theorem aspects_unique_sorted_stable:
  "distinct (map fst positions) \<Longrightarrow>
     distinct (map (\<lambda>a. ({asp_planet1 a, asp_planet2 a}, asp_aspect a))
                 (calculate_aspects orb_factor positions max_orb))
   \<and> distinct (map (\<lambda>a. {asp_planet1 a, asp_planet2 a}) (calculate_aspects 1 positions max_orb))
   \<and> sorted (map asp_orb (calculate_aspects orb_factor positions max_orb))
   \<and> (\<forall>k. filter (\<lambda>a. asp_orb a = k) (calculate_aspects orb_factor positions max_orb)
            = filter (\<lambda>a. asp_orb a = k) (aspects_found orb_factor positions max_orb))"
  unfolding calculate_aspects_def
  by (simp add: distinct_map_sort_key aspects_found_kinds_distinct aspects_found_pairs_distinct
        sort_key_stable)

theorem aspects_unique_sorted_stable_witness:
  "distinct (map fst
     [(''Sun'', \<lparr>pos_longitude = 10, pos_latitude = 0, pos_distance = 1, pos_speed = 1, pos_retrograde = False\<rparr>),
      (''Moon'', \<lparr>pos_longitude = 130, pos_latitude = 0, pos_distance = 1, pos_speed = 13, pos_retrograde = False\<rparr>),
      (''Mars'', \<lparr>pos_longitude = 12, pos_latitude = 0, pos_distance = 1, pos_speed = 0.5, pos_retrograde = False\<rparr>)])
   \<and> distinct (map (\<lambda>a. {asp_planet1 a, asp_planet2 a}) (calculate_aspects 1
     [(''Sun'', \<lparr>pos_longitude = 10, pos_latitude = 0, pos_distance = 1, pos_speed = 1, pos_retrograde = False\<rparr>),
      (''Moon'', \<lparr>pos_longitude = 130, pos_latitude = 0, pos_distance = 1, pos_speed = 13, pos_retrograde = False\<rparr>),
      (''Mars'', \<lparr>pos_longitude = 12, pos_latitude = 0, pos_distance = 1, pos_speed = 0.5, pos_retrograde = False\<rparr>)] 8))
   \<and> sorted (map asp_orb (calculate_aspects 1
     [(''Sun'', \<lparr>pos_longitude = 10, pos_latitude = 0, pos_distance = 1, pos_speed = 1, pos_retrograde = False\<rparr>),
      (''Moon'', \<lparr>pos_longitude = 130, pos_latitude = 0, pos_distance = 1, pos_speed = 13, pos_retrograde = False\<rparr>),
      (''Mars'', \<lparr>pos_longitude = 12, pos_latitude = 0, pos_distance = 1, pos_speed = 0.5, pos_retrograde = False\<rparr>)] 8))"
  using aspects_unique_sorted_stable [of
     "[(''Sun'', \<lparr>pos_longitude = 10, pos_latitude = 0, pos_distance = 1, pos_speed = 1, pos_retrograde = False\<rparr>),
      (''Moon'', \<lparr>pos_longitude = 130, pos_latitude = 0, pos_distance = 1, pos_speed = 13, pos_retrograde = False\<rparr>),
      (''Mars'', \<lparr>pos_longitude = 12, pos_latitude = 0, pos_distance = 1, pos_speed = 0.5, pos_retrograde = False\<rparr>)]" 1 8]
  by simp

text \<open>
  The sample of the witness, evaluated: two entries of orb 2 keep their discovery order.
\<close>

lemma example_aspects:
  "map (\<lambda>a. (asp_planet1 a, asp_planet2 a, asp_aspect a, asp_orb a)) (calculate_aspects 1
     [(''Sun'', \<lparr>pos_longitude = 10, pos_latitude = 0, pos_distance = 1, pos_speed = 1, pos_retrograde = False\<rparr>),
      (''Moon'', \<lparr>pos_longitude = 130, pos_latitude = 0, pos_distance = 1, pos_speed = 13, pos_retrograde = False\<rparr>),
      (''Mars'', \<lparr>pos_longitude = 12, pos_latitude = 0, pos_distance = 1, pos_speed = 0.5, pos_retrograde = False\<rparr>)] 8)
   = [(''Sun'', ''Moon'', ''Trigone'', 0), (''Sun'', ''Mars'', ''Conjonction'', 2), (''Moon'', ''Mars'', ''Trigone'', 2)]"
  by (simp add: calculate_aspects_def aspects_found_def ASPECTS_def calculate_distance_def Let_def
        enumerate_eq_zip upt_rec)

section \<open>Compatibility\<close>

lemma compatibility_percentage_range:
  "compatibility_percentage total_score max_possible_score = Inr p \<Longrightarrow> 0 \<le> p \<and> p \<le> 100"
  by (auto simp: compatibility_percentage_def split: if_splits)

text \<open>
  C3 (the code fails here). Two charts whose bodies form no synastry aspect, a Sun at
  0 degrees against a Sun at 30 degrees: \<open>max_possible_score\<close> is 0 and the division
  raises \<open>ZeroDivisionError\<close>, so no percentage is returned.
\<close>

theorem compatibility_zero_aspects_raises:
  "synastry_aspects
     \<lparr>ch_planet_positions =
        [(''Sun'', \<lparr>pos_longitude = 0, pos_latitude = 0, pos_distance = 1, pos_speed = 1, pos_retrograde = False\<rparr>)],
      ch_element_counts = [(''Feu'', 1), (''Terre'', 0), (''Air'', 0), (''Eau'', 0)]\<rparr>
     \<lparr>ch_planet_positions =
        [(''Sun'', \<lparr>pos_longitude = 30, pos_latitude = 0, pos_distance = 1, pos_speed = 1, pos_retrograde = False\<rparr>)],
      ch_element_counts = [(''Feu'', 0), (''Terre'', 1), (''Air'', 0), (''Eau'', 0)]\<rparr> = []
   \<and> calculate_compatibility
     \<lparr>ch_planet_positions =
        [(''Sun'', \<lparr>pos_longitude = 0, pos_latitude = 0, pos_distance = 1, pos_speed = 1, pos_retrograde = False\<rparr>)],
      ch_element_counts = [(''Feu'', 1), (''Terre'', 0), (''Air'', 0), (''Eau'', 0)]\<rparr>
     \<lparr>ch_planet_positions =
        [(''Sun'', \<lparr>pos_longitude = 30, pos_latitude = 0, pos_distance = 1, pos_speed = 1, pos_retrograde = False\<rparr>)],
      ch_element_counts = [(''Feu'', 0), (''Terre'', 1), (''Air'', 0), (''Eau'', 0)]\<rparr>
     = Inl ZeroDivisionError"
  by (simp add: calculate_compatibility_def synastry_aspects_def compatibility_percentage_def
        ASPECTS_def calculate_distance_def Let_def)

section \<open>Julian day\<close>

text \<open>
  A civil date-time is valid when the month is 1 to 12, the day exists in that month of
  the proleptic Gregorian calendar, and the hour is in \<open>[0, 24)\<close>.
\<close>

definition is_leap_year :: "int \<Rightarrow> bool" where
  "is_leap_year year = (year mod 4 = 0 \<and> (year mod 100 \<noteq> 0 \<or> year mod 400 = 0))"

definition days_in_month :: "int \<Rightarrow> int \<Rightarrow> int" where
  "days_in_month year month =
     (if month = 2 then (if is_leap_year year then 29 else 28)
      else if month = 4 \<or> month = 6 \<or> month = 9 \<or> month = 11 then 30
      else 31)"

definition valid_civil :: "int \<Rightarrow> int \<Rightarrow> int \<Rightarrow> real \<Rightarrow> bool" where
  "valid_civil year month day hour =
     (1 \<le> month \<and> month \<le> 12 \<and> 1 \<le> day \<and> day \<le> days_in_month year month
      \<and> 0 \<le> hour \<and> hour < 24)"

text \<open>
  On whole days the two conversions are integer arithmetic: \<open>day_number\<close> is the sum
  of floors that \<^verbatim>\<open>julian_day\<close> forms, less 1524, and \<open>civil_of_day_number\<close> is
  the chain of floors of \<^verbatim>\<open>gregorian_from_jd\<close>.
\<close>

definition day_number :: "int \<Rightarrow> int \<Rightarrow> int \<Rightarrow> int" where
  "day_number year month day =
     (let year' = (if month \<le> 2 then year - 1 else year);
          month' = (if month \<le> 2 then month + 12 else month);
          a = year' div 100;
          b = 2 - a + a div 4
      in (1461 * (year' + 4716)) div 4 + (306001 * (month' + 1)) div 10000 + day + b - 1524)"

definition civil_of_day_number :: "int \<Rightarrow> int \<times> int \<times> int" where
  "civil_of_day_number z =
     (let w = (4 * z - 7468865) div 146097;
          x = w div 4;
          a = z + 1 + w - x;
          b = a + 1524;
          c = (20 * b - 2442) div 7305;
          d = (1461 * c) div 4;
          e = (10000 * (b - d)) div 306001;
          day = b - d - (306001 * e) div 10000;
          month = (if e < 14 then e - 1 else e - 13);
          year = (if month > 2 then c - 4716 else c - 4715)
      in (year, month, day))"

lemma floor_ratio: "0 < q \<Longrightarrow> x * real_of_int q = real_of_int p \<Longrightarrow> \<lfloor>x\<rfloor> = p div q"
proof -
  assume q: "0 < q" and eq: "x * real_of_int q = real_of_int p"
  from q have "x = real_of_int p / real_of_int q"
    using eq by (simp add: field_simps)
  then show ?thesis by (simp add: floor_divide_of_int_eq)
qed

lemma floor_year_days: "\<lfloor>365.25 * real_of_int n\<rfloor> = (1461 * n) div 4"
  by (rule floor_ratio) simp_all

lemma floor_month_days: "\<lfloor>30.6001 * real_of_int n\<rfloor> = (306001 * n) div 10000"
  by (rule floor_ratio) simp_all

lemma floor_century: "\<lfloor>real_of_int n / 100\<rfloor> = n div 100"
  by (rule floor_ratio) simp_all

lemma floor_quarter: "\<lfloor>real_of_int n / 4\<rfloor> = n div 4"
  by (rule floor_ratio) simp_all

lemma floor_gregorian_centuries:
  "\<lfloor>(real_of_int z - 1867216.25) / 36524.25\<rfloor> = (4 * z - 7468865) div 146097"
  by (rule floor_ratio) simp_all

lemma floor_years:
  "\<lfloor>(real_of_int b - 122.1) / 365.25\<rfloor> = (20 * b - 2442) div 7305"
  by (rule floor_ratio) simp_all

lemma floor_months:
  "\<lfloor>real_of_int n / 30.6001\<rfloor> = (10000 * n) div 306001"
  by (rule floor_ratio) simp_all

lemma int_div_eqI: "0 < b \<Longrightarrow> b * q \<le> a \<Longrightarrow> a < b * q + b \<Longrightarrow> a div b = q" for a b q :: int
proof -
  assume b: "0 < b" and lo: "b * q \<le> a" and hi: "a < b * q + b"
  have "a = q * b + (a - b * q)" by (simp add: algebra_simps)
  moreover have "0 \<le> a - b * q" "a - b * q < b" using lo hi by simp_all
  ultimately show ?thesis
    by (metis b div_pos_pos_trivial div_mult_self4 add.commute add.right_neutral mult.commute
          less_irrefl)
qed

lemma mod4_of_form: "(4 * k + c) mod 4 = c mod 4" for k c :: int
  by (simp add: mod_mult_self4)

lemma year_start_remainder: "Y mod 100 = 0 \<Longrightarrow> (1461 * (Y + 4716)) mod 4 = 0" for Y :: int
proof -
  assume "Y mod 100 = 0"
  then have "Y = 100 * (Y div 100)" using div_mult_mod_eq [of Y 100] by simp
  then have "1461 * (Y + 4716) = 4 * (36525 * (Y div 100) + 1722519) + 0" by simp
  then show ?thesis by (simp only: mod4_of_form) simp
qed

lemma year_end_remainder: "Y mod 100 = 99 \<Longrightarrow> (1461 * (Y + 4716)) mod 4 = 3" for Y :: int
proof -
  assume "Y mod 100 = 99"
  then have "Y = 100 * (Y div 100) + 99" using div_mult_mod_eq [of Y 100] by simp
  then have "1461 * (Y + 4716) = 4 * (36525 * (Y div 100) + 1758678) + 3" by simp
  then show ?thesis by (simp only: mod4_of_form) simp
qed

lemma leap_remainder: "(Y + 1) mod 4 = 0 \<Longrightarrow> (1461 * (Y + 4716)) mod 4 = 3" for Y :: int
proof -
  assume "(Y + 1) mod 4 = 0"
  then have "Y + 1 = 4 * ((Y + 1) div 4)" using div_mult_mod_eq [of "Y + 1" 4] by simp
  then have "Y = 4 * ((Y + 1) div 4) - 1" by simp
  then have "1461 * (Y + 4716) = 4 * (1461 * ((Y + 1) div 4) + 1722153) + 3" by simp
  then show ?thesis by (simp only: mod4_of_form) simp
qed

lemma century_leap: "(Y + 1) mod 400 = 0 \<Longrightarrow> (Y div 100) mod 4 = 3" for Y :: int
proof -
  assume "(Y + 1) mod 400 = 0"
  then have "Y + 1 = 400 * ((Y + 1) div 400)" using div_mult_mod_eq [of "Y + 1" 400] by simp
  then have Y: "Y = 400 * ((Y + 1) div 400) - 1" by simp
  have "Y div 100 = 4 * ((Y + 1) div 400) - 1"
    by (rule int_div_eqI) (use Y in simp_all)
  then have "Y div 100 = 4 * ((Y + 1) div 400 - 1) + 3" by simp
  then show ?thesis by (simp only: mod4_of_form) simp
qed

lemma year_end_next: "Y mod 100 = 99 \<Longrightarrow> (Y + 1) mod 100 = 0" for Y :: int
proof -
  assume "Y mod 100 = 99"
  then have "Y = 100 * (Y div 100) + 99" using div_mult_mod_eq [of Y 100] by simp
  then have "Y + 1 = 100 * (Y div 100 + 1)" by simp
  then show ?thesis by (metis mod_mult_self1_is_0)
qed

lemma century_index:
  fixes Y S :: int
  assumes lo: "123 \<le> S" and hi: "S \<le> 488"
    and leap: "S = 488 \<Longrightarrow> (Y + 1) mod 4 = 0 \<and> ((Y + 1) mod 100 \<noteq> 0 \<or> (Y + 1) mod 400 = 0)"
  shows "(4 * ((1461 * (Y + 4716)) div 4 + S + (2 - Y div 100 + (Y div 100) div 4) - 1524)
            - 7468865) div 146097 = Y div 100 - 4"
proof -
  define A where "A = Y div 100"
  define r where "r = Y mod 100"
  define q where "q = A div 4"
  define s where "s = A mod 4"
  define N where "N = (1461 * (Y + 4716)) div 4"
  define t where "t = (1461 * (Y + 4716)) mod 4"
  have Y: "Y = 100 * A + r" and r: "0 \<le> r" "r < 100"
    by (simp_all add: A_def r_def)
  have A: "A = 4 * q + s" and s: "0 \<le> s" "s < 4"
    by (simp_all add: q_def s_def)
  have "1461 * (Y + 4716) = 4 * N + t" and t: "0 \<le> t" "t < 4"
    by (simp_all add: N_def t_def)
  then have N: "1461 * Y + 6890076 = 4 * N + t" by simp
  have r0: "t = 0" if "r = 0"
    using that year_start_remainder [of Y] by (simp add: r_def t_def)
  have r99: "t = 3" if "r = 99"
    using that year_end_remainder [of Y] by (simp add: r_def t_def)
  have feb29: "s = 3" if "S = 488" "r = 99"
  proof -
    from that(2) have "(Y + 1) mod 100 = 0" unfolding r_def by (rule year_end_next)
    with leap [OF that(1)] have "(Y + 1) mod 400 = 0" by simp
    then show ?thesis using century_leap [of Y] by (simp add: s_def A_def)
  qed
  have lower: "146097 * A - 584388 \<le> 4 * N + 4 * S - 4 * A + 4 * q - 7474953"
  proof (cases "r = 0")
    case True
    with r0 have "t = 0" by simp
    with True Y A N lo s show ?thesis by linarith
  next
    case False
    with r have "1 \<le> r" by simp
    with Y A N lo s t show ?thesis by linarith
  qed
  have upper: "4 * N + 4 * S - 4 * A + 4 * q - 7474953 < 146097 * A - 438291"
  proof (cases "r = 99")
    case True
    with r99 have t3: "t = 3" by simp
    show ?thesis
    proof (cases "S = 488")
      case True
      with feb29 \<open>r = 99\<close> have "s = 3" by simp
      with True t3 \<open>r = 99\<close> Y A N show ?thesis by linarith
    next
      case False
      with hi have "S \<le> 487" by simp
      with t3 \<open>r = 99\<close> Y A N s show ?thesis by linarith
    qed
  next
    case False
    with r have "r \<le> 98" by simp
    with Y A N hi s t show ?thesis by linarith
  qed
  have "(4 * (N + S + (2 - A + q) - 1524) - 7468865) div 146097 = A - 4"
    by (rule int_div_eqI) (use lower upper in \<open>simp_all add: algebra_simps\<close>)
  then show ?thesis by (simp add: N_def A_def q_def)
qed

lemma year_index:
  fixes Y S :: int
  assumes lo: "123 \<le> S" and hi: "S \<le> 488"
    and leap: "S = 488 \<Longrightarrow> (Y + 1) mod 4 = 0 \<and> ((Y + 1) mod 100 \<noteq> 0 \<or> (Y + 1) mod 400 = 0)"
  shows "(20 * ((1461 * (Y + 4716)) div 4 + S) - 2442) div 7305 = Y + 4716"
proof -
  define N where "N = (1461 * (Y + 4716)) div 4"
  define t where "t = (1461 * (Y + 4716)) mod 4"
  have "1461 * (Y + 4716) = 4 * N + t" and t: "0 \<le> t" "t < 4"
    by (simp_all add: N_def t_def)
  then have N: "1461 * Y + 6890076 = 4 * N + t" by simp
  have feb29: "t = 3" if "S = 488"
    using leap [OF that] leap_remainder [of Y] by (simp add: t_def)
  have lower: "7305 * Y + 34450380 \<le> 20 * N + 20 * S - 2442"
    using N t lo by linarith
  have upper: "20 * N + 20 * S - 2442 < 7305 * Y + 34457685"
  proof (cases "S = 488")
    case True
    with feb29 have "t = 3" by simp
    with True N show ?thesis by linarith
  next
    case False
    with hi have "S \<le> 487" by simp
    with N t show ?thesis by linarith
  qed
  have "(20 * (N + S) - 2442) div 7305 = Y + 4716"
    by (rule int_div_eqI) (use lower upper in \<open>simp_all add: algebra_simps\<close>)
  then show ?thesis by (simp add: N_def)
qed

lemma quarter_shift: "(A - 4) div 4 = A div 4 - 1" for A :: int
proof -
  have "A - 4 = A + (- 1) * 4" by simp
  then show ?thesis by (simp only: div_mult_self1)
qed

lemma civil_of_shifted:
  fixes Y M d :: int
  defines "S \<equiv> (306001 * (M + 1)) div 10000 + d"
  assumes range: "3 \<le> M" "M \<le> 14"
    and lo: "123 \<le> S" and hi: "S \<le> 488"
    and leap: "S = 488 \<Longrightarrow> (Y + 1) mod 4 = 0 \<and> ((Y + 1) mod 100 \<noteq> 0 \<or> (Y + 1) mod 400 = 0)"
    and month: "(10000 * S) div 306001 = M + 1"
  shows "civil_of_day_number
           ((1461 * (Y + 4716)) div 4 + S + (2 - Y div 100 + (Y div 100) div 4) - 1524)
         = (if M \<le> 12 then (Y, M, d) else (Y + 1, M - 12, d))"
proof -
  define N where "N = (1461 * (Y + 4716)) div 4"
  define z where "z = N + S + (2 - Y div 100 + (Y div 100) div 4) - 1524"
  have w: "(4 * z - 7468865) div 146097 = Y div 100 - 4"
    unfolding z_def N_def by (rule century_index [OF lo hi leap])
  have b: "z + 1 + (Y div 100 - 4) - (Y div 100 - 4) div 4 + 1524 = N + S"
    by (simp add: z_def quarter_shift)
  have c: "(20 * (N + S) - 2442) div 7305 = Y + 4716"
    unfolding N_def by (rule year_index [OF lo hi leap])
  have e: "(10000 * (N + S - N)) div 306001 = M + 1"
    using month by simp
  have day: "N + S - N - (306001 * (M + 1)) div 10000 = d"
    by (simp add: S_def)
  have "civil_of_day_number z
         = (if M \<le> 12 then (Y, M, d) else (Y + 1, M - 12, d))"
    unfolding civil_of_day_number_def Let_def w b c N_def [symmetric] e day
    using range by simp
  then show ?thesis by (simp add: z_def N_def)
qed

lemma shifted_month_cases:
  "3 \<le> M \<Longrightarrow> M \<le> 14 \<Longrightarrow>
     M = 3 \<or> M = 4 \<or> M = 5 \<or> M = 6 \<or> M = 7 \<or> M = 8 \<or> M = 9 \<or> M = 10
     \<or> M = 11 \<or> M = 12 \<or> M = 13 \<or> M = 14" for M :: int
  by arith

lemma month_index:
  fixes M d :: int
  assumes "3 \<le> M" "M \<le> 14" "1 \<le> d"
    and "d \<le> (if M = 14 then 29 else if M = 4 \<or> M = 6 \<or> M = 9 \<or> M = 11 then 30 else 31)"
  shows "(10000 * ((306001 * (M + 1)) div 10000 + d)) div 306001 = M + 1"
proof -
  consider "M = 3" | "M = 4" | "M = 5" | "M = 6" | "M = 7" | "M = 8" | "M = 9" | "M = 10"
    | "M = 11" | "M = 12" | "M = 13" | "M = 14"
    using shifted_month_cases [OF assms(1,2)] by blast
  then show ?thesis
  proof cases
    case 1 with assms show ?thesis by (intro int_div_eqI) simp_all
  next
    case 2 with assms show ?thesis by (intro int_div_eqI) simp_all
  next
    case 3 with assms show ?thesis by (intro int_div_eqI) simp_all
  next
    case 4 with assms show ?thesis by (intro int_div_eqI) simp_all
  next
    case 5 with assms show ?thesis by (intro int_div_eqI) simp_all
  next
    case 6 with assms show ?thesis by (intro int_div_eqI) simp_all
  next
    case 7 with assms show ?thesis by (intro int_div_eqI) simp_all
  next
    case 8 with assms show ?thesis by (intro int_div_eqI) simp_all
  next
    case 9 with assms show ?thesis by (intro int_div_eqI) simp_all
  next
    case 10 with assms show ?thesis by (intro int_div_eqI) simp_all
  next
    case 11 with assms show ?thesis by (intro int_div_eqI) simp_all
  next
    case 12 with assms show ?thesis by (intro int_div_eqI) simp_all
  qed
qed

lemma month_offset_bounds:
  fixes M d :: int
  assumes "3 \<le> M" "M \<le> 14" "1 \<le> d"
    and "d \<le> (if M = 14 then 29 else if M = 4 \<or> M = 6 \<or> M = 9 \<or> M = 11 then 30 else 31)"
  shows "123 \<le> (306001 * (M + 1)) div 10000 + d"
    and "(306001 * (M + 1)) div 10000 + d \<le> 488"
    and "(306001 * (M + 1)) div 10000 + d = 488 \<Longrightarrow> M = 14 \<and> d = 29"
proof -
  consider "M = 3" | "M = 4" | "M = 5" | "M = 6" | "M = 7" | "M = 8" | "M = 9" | "M = 10"
    | "M = 11" | "M = 12" | "M = 13" | "M = 14"
    using shifted_month_cases [OF assms(1,2)] by blast
  then have "123 \<le> (306001 * (M + 1)) div 10000 + d
     \<and> (306001 * (M + 1)) div 10000 + d \<le> 488
     \<and> ((306001 * (M + 1)) div 10000 + d = 488 \<longrightarrow> M = 14 \<and> d = 29)"
    using assms(3,4) by cases simp_all
  then show "123 \<le> (306001 * (M + 1)) div 10000 + d"
    and "(306001 * (M + 1)) div 10000 + d \<le> 488"
    and "(306001 * (M + 1)) div 10000 + d = 488 \<Longrightarrow> M = 14 \<and> d = 29"
    by simp_all
qed

lemma civil_of_day_number_inverse:
  assumes "1 \<le> month" "month \<le> 12" "1 \<le> day" "day \<le> days_in_month year month"
  shows "civil_of_day_number (day_number year month day) = (year, month, day)"
proof -
  define Y where "Y = (if month \<le> 2 then year - 1 else year)"
  define M where "M = (if month \<le> 2 then month + 12 else month)"
  have M: "3 \<le> M" "M \<le> 14" using assms(1,2) by (simp_all add: M_def)
  have d: "day \<le> (if M = 14 then 29 else if M = 4 \<or> M = 6 \<or> M = 9 \<or> M = 11 then 30 else 31)"
    using assms by (auto simp: M_def days_in_month_def split: if_splits)
  note bounds = month_offset_bounds [OF M assms(3) d]
  have leap: "(Y + 1) mod 4 = 0 \<and> ((Y + 1) mod 100 \<noteq> 0 \<or> (Y + 1) mod 400 = 0)"
    if "(306001 * (M + 1)) div 10000 + day = 488"
  proof -
    from bounds(3) [OF that] have "M = 14" "day = 29" by simp_all
    then have feb: "month = 2" using assms(1,2) by (simp add: M_def split: if_splits)
    with \<open>day = 29\<close> assms(4) have "is_leap_year year"
      by (simp add: days_in_month_def split: if_splits)
    moreover from feb have "Y + 1 = year" by (simp add: Y_def)
    ultimately show ?thesis by (simp add: is_leap_year_def)
  qed
  have dn: "day_number year month day
        = (1461 * (Y + 4716)) div 4 + ((306001 * (M + 1)) div 10000 + day)
            + (2 - Y div 100 + (Y div 100) div 4) - 1524"
    by (simp add: day_number_def Let_def Y_def M_def)
  have "civil_of_day_number (day_number year month day)
          = (if M \<le> 12 then (Y, M, day) else (Y + 1, M - 12, day))"
    unfolding dn
    by (rule civil_of_shifted [OF M bounds(1,2) leap month_index [OF M assms(3) d]])
  then show ?thesis using assms(1,2) by (simp add: Y_def M_def)
qed

end
